theory Spec2Isabelle
  imports Complex_Main
begin

unbundle bit_operations_syntax

section \<open>Python and numpy primitives\<close>

text \<open>
  The game is written in Python 3 over numpy arrays. Python floats are idealised as
  \<^typ>\<open>real\<close> (no rounding, no NaN), Python and numpy integers as \<^typ>\<open>int\<close> or
  \<^typ>\<open>nat\<close>, one-dimensional numpy arrays as lists. Every raise of the source that a
  model function can reach is a value \<open>Inl e\<close> of the result type.
\<close>

datatype error = IndexError | ZeroDivisionError | ValueError

definition rbind :: "error + 'a \<Rightarrow> ('a \<Rightarrow> error + 'b) \<Rightarrow> error + 'b" where
  "rbind m f = (case m of Inl e \<Rightarrow> Inl e | Inr x \<Rightarrow> f x)"

text \<open>\<open>int(x)\<close> on a float truncates towards zero.\<close>

definition py_int :: "real \<Rightarrow> int" where
  "py_int x = (if 0 \<le> x then \<lfloor>x\<rfloor> else \<lceil>x\<rceil>)"

text \<open>\<open>a / b\<close> on Python numbers raises on a zero divisor.\<close>

definition py_truediv :: "real \<Rightarrow> real \<Rightarrow> error + real" where
  "py_truediv a b = (if b = 0 then Inl ZeroDivisionError else Inr (a / b))"

text \<open>\<open>numpy.clip(x, lo, hi)\<close> is \<open>minimum(maximum(x, lo), hi)\<close>, element by element.\<close>

definition clip :: "'a::linorder \<Rightarrow> 'a \<Rightarrow> 'a \<Rightarrow> 'a" where
  "clip x lo hi = min (max x lo) hi"

text \<open>\<open>numpy.zeros((k,), typ)\<close> raises on a negative dimension.\<close>

definition zeros :: "int \<Rightarrow> 'a \<Rightarrow> error + 'a list" where
  "zeros k z = (if k < 0 then Inl ValueError else Inr (replicate (nat k) z))"

text \<open>\<open>numpy.linspace(0., 1., N)\<close>: \<open>N\<close> evenly spaced samples, the single sample being 0.\<close>

definition linspace01 :: "nat \<Rightarrow> real list" where
  "linspace01 N = map (\<lambda>k. if N = 1 then 0 else real k / real (N - 1)) [0..<N]"

text \<open>\<open>a[::orient]\<close> for \<open>orient\<close> in \<open>{1, -1}\<close>.\<close>

definition oriented :: "int \<Rightarrow> 'a list \<Rightarrow> 'a list" where
  "oriented orient xs = (if orient < 0 then rev xs else xs)"

text \<open>Reading \<open>a[i]\<close> at a non-negative index raises past the end.\<close>

definition np_get :: "'a list \<Rightarrow> nat \<Rightarrow> error + 'a" where
  "np_get xs i = (if i < length xs then Inr (xs ! i) else Inl IndexError)"

text \<open>Reading \<open>a[i]\<close> at any integer index: a negative index counts from the end.\<close>

definition np_geti :: "'a list \<Rightarrow> int \<Rightarrow> error + 'a" where
  "np_geti xs i =
     (if 0 \<le> i \<and> i < int (length xs) then Inr (xs ! nat i)
      else if i < 0 \<and> - int (length xs) \<le> i then Inr (xs ! nat (int (length xs) + i))
      else Inl IndexError)"

text \<open>The slice \<open>a[i:j]\<close> for \<open>0 \<le> i\<close>, \<open>0 \<le> j\<close>; slices never raise.\<close>

definition slice :: "nat \<Rightarrow> nat \<Rightarrow> 'a list \<Rightarrow> 'a list" where
  "slice i j xs = take (j - i) (drop i xs)"

text \<open>\<open>numpy.nonzero(mask)[0]\<close>: the positions that hold \<open>True\<close>, ascending.\<close>

definition nonzero :: "bool list \<Rightarrow> nat list" where
  "nonzero bs = filter (\<lambda>i. bs ! i) [0..<length bs]"

text \<open>\<open>a[idx] = v\<close> for an index array \<open>idx\<close> (each position in range) and a scalar \<open>v\<close>.\<close>

definition put_all :: "nat list \<Rightarrow> 'a \<Rightarrow> 'a list \<Rightarrow> 'a list" where
  "put_all idx v xs = foldl (\<lambda>a i. a[i := v]) xs idx"

text \<open>\<open>a[idx] = vs\<close> for an index array and an array of values of the same length; on a
  repeated index the last value stays.\<close>

definition put_each :: "nat list \<Rightarrow> 'a list \<Rightarrow> 'a list \<Rightarrow> 'a list" where
  "put_each idx vs xs = foldl (\<lambda>a (i, v). a[i := v]) xs (zip idx vs)"

text \<open>\<open>a[idx]\<close> for an index array of non-negative positions: the selected cells, or
  IndexError when a position is past the end.\<close>

definition get_all :: "'a list \<Rightarrow> nat list \<Rightarrow> error + 'a list" where
  "get_all xs idx =
     (if list_all (\<lambda>i. i < length xs) idx then Inr (map (\<lambda>i. xs ! i) idx) else Inl IndexError)"

text \<open>A loop that stops at the first raise.\<close>

fun res_map :: "('a \<Rightarrow> error + 'b) \<Rightarrow> 'a list \<Rightarrow> error + 'b list" where
  "res_map f [] = Inr []"
| "res_map f (x # xs) = rbind (f x) (\<lambda>y. rbind (res_map f xs) (\<lambda>ys. Inr (y # ys)))"

text \<open>The cell that an integer index in range denotes.\<close>

definition np_idx :: "nat \<Rightarrow> int \<Rightarrow> nat" where
  "np_idx len i = nat (if i < 0 then int len + i else i)"

text \<open>\<open>a[mask]\<close> for a boolean mask as long as \<open>a\<close>.\<close>

definition compress :: "bool list \<Rightarrow> 'a list \<Rightarrow> 'a list" where
  "compress bs xs = map fst (filter snd (zip xs bs))"

text \<open>The result of one \<open>str.format\<close> field is kept symbolic: literal text, a float under
  a format specification, or an integer under \<open>{}\<close>.\<close>

datatype fmt = Txt string | Fmt string real | Dec int

section \<open>Data model\<close>

subsection \<open>Avatar\<close>

record avatar =
  pos :: "real \<times> real"
  xspeed_a :: real

subsection \<open>Waves of the first variant (module shooter)\<close>

text \<open>
  Class \<open>Wave\<close> and its subclasses \<open>Targets\<close> and \<open>Bullets\<close>. The fields \<open>ident1\<close>,
  \<open>fresh1\<close> and \<open>missed1\<close> are history variables that the source does not have: every
  sprite created by \<open>newpage\<close> gets a fresh number, which travels with the sprite's slot,
  and \<open>missed1\<close> lists the sprites counted by \<open>Targets.leaving\<close>. No other field is ever
  computed from them.
\<close>

record wave1 =
  N1 :: nat
  n1 :: nat
  orient1 :: int
  xpos1 :: "real list"
  xspeed1 :: "real list"
  visible1 :: "bool list"
  ypos1 :: "real list"
  ident1 :: "nat list"
  fresh1 :: nat

record targets1 = wave1 +
  rate1 :: real
  width1 :: real
  score1 :: nat
  missed1 :: "nat list"

record bullets1 = wave1 +
  rload1 :: int

subsection \<open>Waves of the second variant (module shooter2)\<close>

text \<open>Here too \<open>ident2\<close>, \<open>fresh2\<close> and \<open>missed2\<close> are history variables: \<open>ident2\<close> is
  parallel to \<open>born\<close> and is moved with it.\<close>

record wave2 =
  N2 :: nat
  n2 :: nat
  orient2 :: int
  M2 :: nat
  born :: "int list"
  xpos2 :: "real list"
  xspeed2 :: "real list"
  alive :: "bool list"
  ialive :: "nat list"
  nalive :: nat
  nborn :: nat
  tborn :: int
  ypos2 :: "real list"
  cslice :: "int \<times> int"
  ident2 :: "nat list"
  fresh2 :: nat

record targets2 = wave2 +
  rate2 :: real
  width2 :: real
  score2 :: nat
  missed2 :: "nat list"

record bullets2 = wave2 +
  rload2 :: int

subsection \<open>Hits\<close>

text \<open>Class \<open>Hits\<close> is the same in both modules but for \<open>update\<close>. The field \<open>hitlog\<close> is a
  history variable: the sprites counted in \<open>score\<close>, one entry per counted collision.\<close>

record hits =
  timeout :: int
  tol :: real
  clashmat :: "real list list"
  ypos_h :: "real list"
  xpos_h :: "real list"
  weight :: "int list"
  score_h :: nat
  hitlog :: "nat list"

subsection \<open>Game\<close>

record ('t, 'b) game =
  fps :: int
  tr_move :: int
  tr_quit :: bool
  tr_hits :: bool
  tr_miss :: bool
  nstep :: nat
  gameover :: bool
  status :: "fmt list"
  perf :: real
  avatar :: avatar
  targets :: 't
  bullets :: 'b
  hits :: hits

section \<open>Avatar\<close>

definition Avatar_init :: "int \<Rightarrow> real \<Rightarrow> real \<Rightarrow> real \<Rightarrow> error + avatar" where
  "Avatar_init gfps x y v =
     rbind (py_truediv v (real_of_int gfps)) (\<lambda>s. Inr \<lparr>pos = (x, y), xspeed_a = s\<rparr>)"

definition Avatar_update :: "('t, 'b) game \<Rightarrow> ('t, 'b) game" where
  "Avatar_update g =
     (let a = avatar g;
          x = fst (pos a) + real_of_int (tr_move g) * xspeed_a a
      in g\<lparr>avatar := a\<lparr>pos := (clip x 0 1, snd (pos a))\<rparr>\<rparr>)"

text \<open>A sequence of frames in which only the avatar moves, one move command per frame.\<close>

fun Avatar_moves :: "int list \<Rightarrow> ('t, 'b) game \<Rightarrow> ('t, 'b) game" where
  "Avatar_moves [] g = g"
| "Avatar_moves (m # ms) g = Avatar_moves ms (Avatar_update (g\<lparr>tr_move := m\<rparr>))"

section \<open>Hits: the parts shared by both variants\<close>

text \<open>\<open>Hits.__init__\<close>, from the frame rate, the configured timeout, \<open>game.targets.width\<close>,
  and the row positions and window sizes of the two waves. \<open>1./N\<close> raises on \<open>N = 0\<close>.\<close>

definition Hits_init ::
  "int \<Rightarrow> real \<Rightarrow> real \<Rightarrow> real list \<Rightarrow> nat \<Rightarrow> real list \<Rightarrow> nat \<Rightarrow> error + hits" where
  "Hits_init gfps tmo width r N r' N' =
     rbind (py_truediv 1 (real N)) (\<lambda>a.
     rbind (py_truediv 1 (real N')) (\<lambda>b.
       Inr \<lparr>timeout = py_int (tmo * real_of_int gfps), tol = width / 2,
            clashmat = map (\<lambda>y. map (\<lambda>y'. (y - y') / (a + b)) r') r,
            ypos_h = r, xpos_h = replicate N 0, weight = replicate N 0,
            score_h = 0, hitlog = []\<rparr>))"

text \<open>The last two statements of \<open>Hits.update\<close>: \<open>self.weight -= 1\<close> and the clip to
  \<open>[0, timeout]\<close>.\<close>

definition Hits_age :: "hits \<Rightarrow> hits" where
  "Hits_age h = h\<lparr>weight := map (\<lambda>w. clip (w - 1) 0 (timeout h)) (weight h)\<rparr>"

text \<open>\<open>Hits.display\<close> shows the rows selected by the mask \<open>self.weight > 0\<close>.\<close>

definition Hits_display :: "hits \<Rightarrow> bool list" where
  "Hits_display h = map (\<lambda>w. 0 < w) (weight h)"

section \<open>Game\<close>

text \<open>What the environment supplies for one frame: the keys held down (a bit vector),
  the processor time the update takes (\<open>clock() - start\<close>), and the draws of the random
  sources should the frame ask for them (\<open>unif r k\<close> is entry \<open>[r, k]\<close> of the array
  \<open>uniform\<close> returns, \<open>geom k\<close> entry \<open>k\<close> of the one \<open>geometric\<close> returns).\<close>

record frame =
  keys :: int
  clock_dt :: real
  unif :: "nat \<Rightarrow> nat \<Rightarrow> real"
  geom :: "nat \<Rightarrow> int"

text \<open>The configuration: \<open>fps\<close> and the keyword arguments of the four components.\<close>

record config =
  c_fps :: int
  avatar_x :: real
  avatar_y :: real
  avatar_v :: real
  targets_v :: real
  targets_rate :: real
  targets_width :: real
  bullets_v :: real
  bullets_rload :: real
  hits_timeout :: real

text \<open>\<open>GameManager.userinput\<close>, with \<open>KEY_MOVELEFT = 1\<close>, \<open>KEY_MOVERIGHT = 2\<close>,
  \<open>KEY_BOOST = 4\<close> and \<open>KEY_TERMINATE = 8\<close>.\<close>

definition userinput :: "int \<Rightarrow> ('t, 'b) game \<Rightarrow> ('t, 'b) game" where
  "userinput ks g =
     (let m = (if ks AND 2 \<noteq> 0 then 1 else 0) - (if ks AND 1 \<noteq> 0 then 1 else 0);
          m' = (if ks AND 4 \<noteq> 0 then m * 2 else m)
      in g\<lparr>tr_move := m', tr_quit := (ks AND 8 \<noteq> 0), tr_hits := False, tr_miss := False\<rparr>)"

text \<open>\<open>for cn,c in self.components: c.update()\<close>.\<close>

fun run_all :: "('s \<Rightarrow> error + 's) list \<Rightarrow> 's \<Rightarrow> error + 's" where
  "run_all [] g = Inr g"
| "run_all (c # cs) g = rbind (c g) (run_all cs)"

text \<open>The percentage in the status line:
  \<open>'{:.2f}'.format(100*float(hit)/float(total)) if total else '*'\<close>.\<close>

definition score_text :: "nat \<Rightarrow> nat \<Rightarrow> error + fmt" where
  "score_text hit tot =
     (if tot \<noteq> 0
      then rbind (py_truediv (100 * real hit) (real tot)) (\<lambda>p. Inr (Fmt ''.2f'' p))
      else Inr (Txt ''*''))"

text \<open>\<open>Game.update\<close>. The component updates (in the order avatar, targets, bullets, hits)
  and the reader of \<open>self.targets.score\<close> are parameters, since class \<open>Game\<close> of module
  shooter2 inherits the method and only replaces the component classes.\<close>

definition Game_update ::
  "(('t, 'b) game \<Rightarrow> error + ('t, 'b) game) list \<Rightarrow> ('t \<Rightarrow> nat) \<Rightarrow> real \<Rightarrow>
   ('t, 'b) game \<Rightarrow> error + ('t, 'b) game" where
  "Game_update comps tscore dt g =
     (if tr_quit g then
        Inr (g\<lparr>gameover := True,
              status := [Txt ''Game over. Efficiency (logic): '',
                         Fmt ''.2%'' (perf g * real_of_int (fps g))]\<rparr>)
      else
        rbind (run_all comps g) (\<lambda>g1.
        let hit = score_h (hits g1); miss = tscore (targets g1); tot = miss + hit in
        rbind (score_text hit tot) (\<lambda>score.
        rbind (py_truediv (real (nstep g1 + 1)) (real_of_int (fps g1))) (\<lambda>t.
          Inr (g1\<lparr>nstep := nstep g1 + 1,
                 status := [Txt ''time: '', Fmt ''06.1f'' t, Txt ''; hit: '', Dec (int hit),
                            Txt ''; miss: '', Dec (int miss), Txt ''; score: '', score],
                 perf := perf g1 + (dt - perf g1) / real (nstep g1 + 1)\<rparr>)))))"

section \<open>First variant: module shooter\<close>

subsection \<open>Wave\<close>

text \<open>A page is what \<open>newpage\<close> returns: positions, speeds and visibilities of \<open>N\<close> new
  sprites (the scalars that \<open>Bullets.newpage\<close> returns are broadcast over the page).\<close>

type_synonym page = "real list \<times> real list \<times> bool list"

text \<open>\<open>self.xpos[N:], self.xspeed[N:], self.visible[N:] = self.newpage()\<close>. The arrays of a
  wave are allocated with \<open>2 * N\<close> cells and a page has \<open>N\<close>, so the second half is
  replaced. The new sprites get fresh numbers.\<close>

definition set_page :: "page \<Rightarrow> 'a wave1_scheme \<Rightarrow> 'a wave1_scheme" where
  "set_page pg w =
     (case pg of (xp, xs, vs) \<Rightarrow>
        w\<lparr>xpos1 := take (N1 w) (xpos1 w) @ xp,
          xspeed1 := take (N1 w) (xspeed1 w) @ xs,
          visible1 := take (N1 w) (visible1 w) @ vs,
          ident1 := take (N1 w) (ident1 w) @ [fresh1 w..<fresh1 w + N1 w],
          fresh1 := fresh1 w + N1 w\<rparr>)"

text \<open>\<open>Wave.__init__\<close>, up to the call of \<open>newpage\<close>, on an object whose subclass part
  \<open>ext\<close> is already set.\<close>

definition Wave1_init :: "int \<Rightarrow> real \<Rightarrow> int \<Rightarrow> 'a \<Rightarrow> error + 'a wave1_scheme" where
  "Wave1_init gfps v orient ext =
     rbind (py_truediv (real_of_int gfps) v) (\<lambda>q.
     rbind (zeros (2 * py_int q) (0::real)) (\<lambda>zs.
     rbind (zeros (2 * py_int q) False) (\<lambda>fs.
       Inr \<lparr>N1 = nat (py_int q), n1 = 0, orient1 = orient,
            xpos1 = zs, xspeed1 = zs, visible1 = fs,
            ypos1 = oriented orient (linspace01 (nat (py_int q))),
            ident1 = [0..<length zs], fresh1 = length zs, \<dots> = ext\<rparr>)))"

text \<open>\<open>self.xpos[n:m] += self.xspeed[n:m]\<close>.\<close>

definition add_range :: "nat \<Rightarrow> nat \<Rightarrow> real list \<Rightarrow> real list \<Rightarrow> real list" where
  "add_range n m vs xs =
     map (\<lambda>i. if n \<le> i \<and> i < m then xs ! i + vs ! i else xs ! i) [0..<length xs]"

text \<open>\<open>a[:N] = a[N:]\<close> on an array of \<open>2 * N\<close> cells.\<close>

definition copy_back :: "nat \<Rightarrow> 'a list \<Rightarrow> 'a list" where
  "copy_back N xs = drop N xs @ drop N xs"

text \<open>Lines 119 to 122 of \<open>Wave.update\<close>: the hooks for the sprite that leaves slot \<open>n\<close>
  and the one that enters at slot \<open>m = n + N\<close>, each called when its sprite is visible.
  The methods \<open>leaving\<close> and \<open>entering\<close> of the subclass are parameters; \<open>leaving\<close> also
  returns whether it set \<open>game.tr_miss\<close>.\<close>

definition Wave1_hooks ::
  "(nat \<Rightarrow> 'a wave1_scheme \<Rightarrow> 'a wave1_scheme \<times> bool) \<Rightarrow>
   (nat \<Rightarrow> 'a wave1_scheme \<Rightarrow> 'a wave1_scheme) \<Rightarrow> 'a wave1_scheme \<Rightarrow>
   error + ('a wave1_scheme \<times> bool)" where
  "Wave1_hooks leaving entering w =
     rbind (np_get (visible1 w) (n1 w)) (\<lambda>vn.
     let wa = (if vn then fst (leaving (n1 w) w) else w);
         miss = (if vn then snd (leaving (n1 w) w) else False)
     in rbind (np_get (visible1 wa) (n1 w + N1 w)) (\<lambda>vm.
          Inr (if vm then entering (n1 w + N1 w) wa else wa, miss)))"

text \<open>Lines 123 to 129: the positions of the slots \<open>[n, m)\<close> advance, \<open>n\<close> moves on, and when
  it reaches \<open>N\<close> the second half of the arrays is copied to the first and \<open>newpage\<close>
  (a parameter) fills the second.\<close>

definition Wave1_shift ::
  "('a wave1_scheme \<Rightarrow> error + page) \<Rightarrow> 'a wave1_scheme \<Rightarrow> error + 'a wave1_scheme" where
  "Wave1_shift newpage w =
     (let wc = w\<lparr>xpos1 := add_range (n1 w) (n1 w + N1 w) (xspeed1 w) (xpos1 w)\<rparr>
      in if n1 w + 1 = N1 w then
           let wd = wc\<lparr>xpos1 := copy_back (N1 w) (xpos1 wc),
                       xspeed1 := copy_back (N1 w) (xspeed1 wc),
                       visible1 := copy_back (N1 w) (visible1 wc),
                       ident1 := copy_back (N1 w) (ident1 wc)\<rparr>
           in rbind (newpage wd) (\<lambda>pg. Inr ((set_page pg wd)\<lparr>n1 := 0\<rparr>))
         else Inr (wc\<lparr>n1 := n1 w + 1\<rparr>))"

text \<open>\<open>Wave.update\<close>.\<close>

definition Wave1_update ::
  "('a wave1_scheme \<Rightarrow> error + page) \<Rightarrow> (nat \<Rightarrow> 'a wave1_scheme \<Rightarrow> 'a wave1_scheme \<times> bool) \<Rightarrow>
   (nat \<Rightarrow> 'a wave1_scheme \<Rightarrow> 'a wave1_scheme) \<Rightarrow> 'a wave1_scheme \<Rightarrow>
   error + ('a wave1_scheme \<times> bool)" where
  "Wave1_update newpage leaving entering w =
     rbind (Wave1_hooks leaving entering w) (\<lambda>(wb, miss).
     rbind (Wave1_shift newpage wb) (\<lambda>w'. Inr (w', miss)))"

text \<open>\<open>Wave.current\<close>: the exposed slices of positions, speeds and visibilities.\<close>

definition current1 :: "'a wave1_scheme \<Rightarrow> real list \<times> real list \<times> bool list" where
  "current1 w =
     (slice (n1 w) (n1 w + N1 w) (xpos1 w), slice (n1 w) (n1 w + N1 w) (xspeed1 w),
      slice (n1 w) (n1 w + N1 w) (visible1 w))"

subsection \<open>Targets\<close>

text \<open>The random source is a parameter: \<open>u r k\<close> is entry \<open>[r, k]\<close> of the array that
  \<open>uniform(0., 1., (3, N))\<close> returns.\<close>

definition Targets1_newpage :: "(nat \<Rightarrow> nat \<Rightarrow> real) \<Rightarrow> targets1 \<Rightarrow> error + page" where
  "Targets1_newpage u w =
     Inr (map (u 0) [0..<N1 w],
          map (\<lambda>k. (u 1 k - u 0 k) / real (N1 w)) [0..<N1 w],
          map (\<lambda>k. u 2 k < rate1 w) [0..<N1 w])"

definition Targets1_leaving :: "nat \<Rightarrow> targets1 \<Rightarrow> targets1 \<times> bool" where
  "Targets1_leaving i w =
     (w\<lparr>score1 := score1 w + 1, missed1 := ident1 w ! i # missed1 w\<rparr>, True)"

definition Targets1_init ::
  "int \<Rightarrow> real \<Rightarrow> real \<Rightarrow> real \<Rightarrow> (nat \<Rightarrow> nat \<Rightarrow> real) \<Rightarrow> error + targets1" where
  "Targets1_init gfps rate width v u =
     rbind (py_truediv rate (real_of_int gfps)) (\<lambda>r.
     rbind (Wave1_init gfps v 1 (targets1.fields r width 0 [])) (\<lambda>w.
     rbind (Targets1_newpage u w) (\<lambda>pg. Inr (set_page pg w))))"

definition Targets1_update ::
  "(nat \<Rightarrow> nat \<Rightarrow> real) \<Rightarrow> targets1 \<Rightarrow> error + (targets1 \<times> bool)" where
  "Targets1_update u w = Wave1_update (Targets1_newpage u) Targets1_leaving (\<lambda>i w. w) w"

subsection \<open>Bullets\<close>

text \<open>In \<open>newpage\<close>, \<open>arange(0, N, rload)\<close> raises for a zero step and is empty for a
  negative one.\<close>

definition Bullets1_newpage :: "bullets1 \<Rightarrow> error + page" where
  "Bullets1_newpage w =
     (if rload1 w = 0 then Inl ZeroDivisionError
      else Inr (replicate (N1 w) (1 / 2), replicate (N1 w) 0,
                map (\<lambda>k. 0 < rload1 w \<and> int k mod rload1 w = 0) [0..<N1 w]))"

definition Bullets1_entering :: "real \<Rightarrow> nat \<Rightarrow> bullets1 \<Rightarrow> bullets1" where
  "Bullets1_entering ax i w = w\<lparr>xpos1 := (xpos1 w)[i := ax]\<rparr>"

definition Bullets1_init :: "int \<Rightarrow> real \<Rightarrow> real \<Rightarrow> error + bullets1" where
  "Bullets1_init gfps rload v =
     rbind (Wave1_init gfps v (- 1) (bullets1.fields (py_int (rload * real_of_int gfps)))) (\<lambda>w.
     rbind (Bullets1_newpage w) (\<lambda>pg. Inr (set_page pg w)))"

text \<open>\<open>ax\<close> is \<open>game.avatar.pos[0,0]\<close>, which \<open>entering\<close> reads.\<close>

definition Bullets1_update :: "real \<Rightarrow> bullets1 \<Rightarrow> error + (bullets1 \<times> bool)" where
  "Bullets1_update ax w =
     Wave1_update Bullets1_newpage (\<lambda>i w. (w, False)) (Bullets1_entering ax) w"

subsection \<open>Hits\<close>

text \<open>The collision test of \<open>Hits.update\<close>: the pairs \<open>(nz[k], nz1[k])\<close> that \<open>nonzero\<close> finds
  in the matrix of the test, in row-major order. Their components are positions in the
  compressed arrays \<open>x[visible]\<close> and \<open>x1[visible1]\<close>. Indexing \<open>clashmat\<close> with a boolean mask
  raises when the mask's length is not that of the axis.\<close>

definition Hits1_pairs ::
  "hits \<Rightarrow> real list \<times> real list \<times> bool list \<Rightarrow> real list \<times> real list \<times> bool list \<Rightarrow>
   error + (nat \<times> nat) list" where
  "Hits1_pairs h c c' =
     (case c of (x, v, vis) \<Rightarrow> case c' of (x', v', vis') \<Rightarrow>
        if length vis = length (clashmat h) \<and>
           list_all (\<lambda>row. length row = length vis') (clashmat h)
        then Inr [(i, j). i \<leftarrow> [0..<length (nonzero vis)], j \<leftarrow> [0..<length (nonzero vis')],
                  \<bar>(x' ! (nonzero vis' ! j) - x ! (nonzero vis ! i)) +
                    (v' ! (nonzero vis' ! j) - v ! (nonzero vis ! i)) *
                      (clashmat h ! (nonzero vis ! i) ! (nonzero vis' ! j))\<bar> < tol h
                  \<and> clashmat h ! (nonzero vis ! i) ! (nonzero vis' ! j) \<ge> 0
                  \<and> clashmat h ! (nonzero vis ! i) ! (nonzero vis' ! j) \<le> 1]
        else Inl IndexError)"

text \<open>\<open>Hits.update\<close> of module shooter. \<open>visible\<close> and \<open>visible1\<close> are views of the waves'
  arrays, so writing them at window offset \<open>s\<close> writes the wave's array at \<open>n + s\<close>.\<close>

definition Hits1_update ::
  "(targets1, bullets1) game \<Rightarrow> error + (targets1, bullets1) game" where
  "Hits1_update g =
     (let w = targets g; w' = bullets g; h = hits g in
      case current1 w of (x, v, vis) \<Rightarrow> case current1 w' of (x', v', vis') \<Rightarrow>
      rbind
        (if True \<in> set vis \<and> True \<in> set vis' then
           rbind (Hits1_pairs h (x, v, vis) (x', v', vis')) (\<lambda>nz.
             if 0 < length nz then
               let s = map (\<lambda>(i, j). nonzero vis ! i) nz;
                   s' = map (\<lambda>(i, j). nonzero vis' ! j) nz
               in Inr (g\<lparr>tr_hits := True,
                        hits := h\<lparr>score_h := score_h h + length nz,
                                  weight := put_all s (timeout h) (weight h),
                                  xpos_h := put_each s (map (\<lambda>i. x ! i) s) (xpos_h h),
                                  hitlog := map (\<lambda>i. ident1 w ! (n1 w + i)) s @ hitlog h\<rparr>,
                        targets := w\<lparr>visible1 := put_all (map (\<lambda>i. n1 w + i) s) False (visible1 w)\<rparr>,
                        bullets := w'\<lparr>visible1 := put_all (map (\<lambda>i. n1 w' + i) s') False (visible1 w')\<rparr>\<rparr>)
             else Inr g)
         else Inr g)
        (\<lambda>g'. Inr (g'\<lparr>hits := Hits_age (hits g')\<rparr>)))"

subsection \<open>Game\<close>

type_synonym game1 = "(targets1, bullets1) game"

definition Targets1_step :: "(nat \<Rightarrow> nat \<Rightarrow> real) \<Rightarrow> game1 \<Rightarrow> error + game1" where
  "Targets1_step u g =
     rbind (Targets1_update u (targets g)) (\<lambda>(w, miss).
       Inr (g\<lparr>targets := w, tr_miss := (miss \<or> tr_miss g)\<rparr>))"

definition Bullets1_step :: "game1 \<Rightarrow> error + game1" where
  "Bullets1_step g =
     rbind (Bullets1_update (fst (pos (avatar g))) (bullets g)) (\<lambda>(w, miss).
       Inr (g\<lparr>bullets := w, tr_miss := (miss \<or> tr_miss g)\<rparr>))"

definition components1 :: "frame \<Rightarrow> (game1 \<Rightarrow> error + game1) list" where
  "components1 f = [\<lambda>g. Inr (Avatar_update g), Targets1_step (unif f), Bullets1_step, Hits1_update]"

text \<open>\<open>Game.__init__\<close> with the component classes of module shooter. The attributes
  \<open>tr_move\<close>, \<open>tr_quit\<close>, \<open>tr_hits\<close> and \<open>tr_miss\<close> do not exist before the first
  \<open>userinput\<close>; the model starts them at 0 and \<open>False\<close>.\<close>

definition Game1_init :: "config \<Rightarrow> (nat \<Rightarrow> nat \<Rightarrow> real) \<Rightarrow> error + game1" where
  "Game1_init c u =
     rbind (Avatar_init (c_fps c) (avatar_x c) (avatar_y c) (avatar_v c)) (\<lambda>a.
     rbind (Targets1_init (c_fps c) (targets_rate c) (targets_width c) (targets_v c) u) (\<lambda>t.
     rbind (Bullets1_init (c_fps c) (bullets_rload c) (bullets_v c)) (\<lambda>b.
     rbind (Hits_init (c_fps c) (hits_timeout c) (width1 t) (ypos1 t) (N1 t) (ypos1 b) (N1 b)) (\<lambda>h.
       Inr \<lparr>fps = c_fps c, tr_move = 0, tr_quit = False, tr_hits = False, tr_miss = False,
            nstep = 0, gameover = False, status = [Txt ''time: 0''], perf = 0,
            avatar = a, targets = t, bullets = b, hits = h\<rparr>))))"

text \<open>One round of the generator \<open>loop\<close> in \<open>Game.setup\<close>: \<open>userinput\<close>, then \<open>update\<close>
  (\<open>useroutput\<close> only plays sounds).\<close>

definition frame1 :: "frame \<Rightarrow> game1 \<Rightarrow> error + game1" where
  "frame1 f g = Game_update (components1 f) score1 (clock_dt f) (userinput (keys f) g)"

text \<open>The generator \<open>loop\<close>, run for the given frames: \<open>while not self.gameover\<close>.\<close>

fun loop1 :: "frame list \<Rightarrow> game1 \<Rightarrow> error + game1" where
  "loop1 [] g = Inr g"
| "loop1 (f # fs) g = (if gameover g then Inr g else rbind (frame1 f g) (loop1 fs))"

text \<open>Any sequence of frames, each \<open>userinput\<close> followed by \<open>Game.update\<close>, whether or
  not the game is over.\<close>

fun updates1 :: "frame list \<Rightarrow> game1 \<Rightarrow> error + game1" where
  "updates1 [] g = Inr g"
| "updates1 (f # fs) g = rbind (frame1 f g) (updates1 fs)"


section \<open>Second variant: module shooter2\<close>

subsection \<open>Wave\<close>

text \<open>\<open>Wave.__init__\<close> up to the call of \<open>newcontent\<close>.\<close>

definition Wave2_alloc :: "int \<Rightarrow> real \<Rightarrow> int \<Rightarrow> 'a \<Rightarrow> error + 'a wave2_scheme" where
  "Wave2_alloc gfps v orient ext =
     rbind (py_truediv (real_of_int gfps) v) (\<lambda>q.
     rbind (zeros (2 * py_int q) (0::real)) (\<lambda>zs.
     rbind (zeros (py_int q) (0::nat)) (\<lambda>ia.
       Inr \<lparr>N2 = nat (py_int q), n2 = 0, orient2 = orient, M2 = 2 * nat (py_int q),
            born = replicate (length zs) 0, xpos2 = zs, xspeed2 = zs,
            alive = replicate (length zs) False, ialive = ia, nalive = 0,
            nborn = 0, tborn = 0, ypos2 = [], cslice = (0, 0),
            ident2 = [0..<length zs], fresh2 = length zs, \<dots> = ext\<rparr>)))"

text \<open>The rest of \<open>Wave.__init__\<close>, after \<open>self.newcontent(t=N-1)\<close>.\<close>

definition Wave2_start :: "'a wave2_scheme \<Rightarrow> error + 'a wave2_scheme" where
  "Wave2_start w =
     rbind (np_get (born w) 0) (\<lambda>b0.
       Inr (w\<lparr>alive := replicate (length (alive w)) True, nborn := 0, tborn := b0,
              ypos2 := oriented (orient2 w) (linspace01 (N2 w)),
              cslice := (0, int (N2 w))\<rparr>))"

text \<open>Lines 82 to 90 of \<open>Wave.update\<close>: the oldest sprite leaves when its time has come, and
  the index list is compacted to the sprites still alive. The result is the wave, the
  local \<open>n\<close> and whether \<open>leaving\<close> set \<open>game.tr_miss\<close>.\<close>

definition Wave2_expire ::
  "(nat \<Rightarrow> 'a wave2_scheme \<Rightarrow> 'a wave2_scheme \<times> bool) \<Rightarrow> 'a wave2_scheme \<Rightarrow>
   error + ('a wave2_scheme \<times> nat \<times> bool)" where
  "Wave2_expire leaving w =
     (if nalive w \<noteq> 0 then
        let a = take (nalive w) (ialive w) in
        rbind (get_all (alive w) a) (\<lambda>s.
        rbind (np_get a 0) (\<lambda>a0.
        rbind (np_get (born w) a0) (\<lambda>b0.
        let leave = (b0 = fst (cslice w) \<and> s ! 0);
            w1 = (if leave then fst (leaving a0 w) else w);
            s1 = (if leave then s[0 := False] else s);
            miss = (if leave then snd (leaving a0 w) else False);
            a' = compress s1 a
        in Inr (w1\<lparr>ialive := a' @ drop (length a') (ialive w1)\<rparr>, length a', miss))))
      else Inr (w, 0, False))"

text \<open>Lines 97 to 102 of \<open>Wave.update\<close>: when the store is used up, the \<open>n\<close> exposed
  sprites are moved to its front and \<open>newcontent\<close> (a parameter) fills the rest with new
  sprites, born after the end of the window.\<close>

definition Wave2_refill ::
  "(nat \<Rightarrow> int \<Rightarrow> 'a wave2_scheme \<Rightarrow> 'a wave2_scheme) \<Rightarrow> 'a wave2_scheme \<Rightarrow> nat \<Rightarrow>
   error + 'a wave2_scheme" where
  "Wave2_refill newcontent w n =
     (let a = take n (ialive w) in
      rbind (get_all (born w) a) (\<lambda>bs.
      rbind (get_all (xpos2 w) a) (\<lambda>xs.
      rbind (get_all (xspeed2 w) a) (\<lambda>vs.
        Inr ((newcontent n (snd (cslice w))
               (w\<lparr>born := bs @ drop n (born w),
                  xpos2 := xs @ drop n (xpos2 w),
                  xspeed2 := vs @ drop n (xspeed2 w),
                  ident2 := map (\<lambda>i. ident2 w ! i) a @ drop n (ident2 w),
                  ialive := [0..<n] @ drop n (ialive w),
                  nborn := n\<rparr>))
             \<lparr>alive := replicate (length (alive w)) True\<rparr>)))))"

text \<open>Lines 91 to 103: the next sprite enters when its birth date is the end of the
  window. Writing \<open>self.ialive[n]\<close> raises when \<open>n\<close> is the length of \<open>ialive\<close>.\<close>

definition Wave2_admit ::
  "(nat \<Rightarrow> int \<Rightarrow> 'a wave2_scheme \<Rightarrow> 'a wave2_scheme) \<Rightarrow>
   (nat \<Rightarrow> 'a wave2_scheme \<Rightarrow> error + 'a wave2_scheme) \<Rightarrow> 'a wave2_scheme \<Rightarrow> nat \<Rightarrow>
   error + ('a wave2_scheme \<times> nat)" where
  "Wave2_admit newcontent entering w n =
     (if tborn w = snd (cslice w) then
        if n < length (ialive w) then
          rbind (entering (nborn w) (w\<lparr>ialive := (ialive w)[n := nborn w]\<rparr>)) (\<lambda>w2.
          rbind (if nborn w2 + 1 = M2 w2
                 then Wave2_refill newcontent (w2\<lparr>nborn := nborn w2 + 1\<rparr>) (n + 1)
                 else Inr (w2\<lparr>nborn := nborn w2 + 1\<rparr>)) (\<lambda>w6.
          rbind (np_get (born w6) (nborn w6)) (\<lambda>tb. Inr (w6\<lparr>tborn := tb\<rparr>, n + 1))))
        else Inl IndexError
      else Inr (w, n))"

text \<open>Lines 104 to 108: \<open>self.xpos[a] += self.xspeed[a]\<close> on the exposed sprites, and the
  window moves on by one frame.\<close>

definition Wave2_advance :: "'a wave2_scheme \<Rightarrow> nat \<Rightarrow> error + 'a wave2_scheme" where
  "Wave2_advance w n =
     rbind
       (if n \<noteq> 0 then
          let a = take n (ialive w) in
          rbind (get_all (xpos2 w) a) (\<lambda>xs.
          rbind (get_all (xspeed2 w) a) (\<lambda>vs.
            Inr (w\<lparr>nalive := n, xpos2 := put_each a (map2 (+) xs vs) (xpos2 w)\<rparr>)))
        else Inr (w\<lparr>nalive := n\<rparr>))
       (\<lambda>w'. Inr (w'\<lparr>cslice := (fst (cslice w) + 1, snd (cslice w) + 1)\<rparr>))"

text \<open>\<open>Wave.update\<close>, with the subclass's methods as parameters.\<close>

definition Wave2_update ::
  "(nat \<Rightarrow> int \<Rightarrow> 'a wave2_scheme \<Rightarrow> 'a wave2_scheme) \<Rightarrow>
   (nat \<Rightarrow> 'a wave2_scheme \<Rightarrow> 'a wave2_scheme \<times> bool) \<Rightarrow>
   (nat \<Rightarrow> 'a wave2_scheme \<Rightarrow> error + 'a wave2_scheme) \<Rightarrow> 'a wave2_scheme \<Rightarrow>
   error + ('a wave2_scheme \<times> bool)" where
  "Wave2_update newcontent leaving entering w =
     rbind (Wave2_expire leaving w) (\<lambda>(w1, n, miss).
     rbind (Wave2_admit newcontent entering w1 n) (\<lambda>(w2, n').
     rbind (Wave2_advance w2 n') (\<lambda>w3. Inr (w3, miss))))"

text \<open>\<open>Wave.current\<close>.\<close>

definition current2 :: "'a wave2_scheme \<Rightarrow> nat list" where
  "current2 w = take (nalive w) (ialive w)"

subsection \<open>Targets\<close>

text \<open>\<open>Targets.newcontent(n, t)\<close>. \<open>u r k\<close> is entry \<open>[r, k]\<close> of the array that
  \<open>uniform(0., 1., (2, M - n))\<close> returns and \<open>geo k\<close> entry \<open>k\<close> of the one that
  \<open>geometric(rate, (M - n,))\<close> returns; \<open>cumsum\<close> makes entry \<open>k\<close> of the birth dates the sum
  of the draws up to \<open>k\<close>. That \<open>geometric\<close> rejects a parameter outside \<open>(0, 1]\<close> is not
  modelled.\<close>

definition Targets2_newcontent ::
  "(nat \<Rightarrow> nat \<Rightarrow> real) \<Rightarrow> (nat \<Rightarrow> int) \<Rightarrow> nat \<Rightarrow> int \<Rightarrow> targets2 \<Rightarrow> targets2" where
  "Targets2_newcontent u geo n t w =
     w\<lparr>xpos2 := take n (xpos2 w) @ map (u 0) [0..<M2 w - n],
       xspeed2 := take n (xspeed2 w) @ map (\<lambda>k. (u 1 k - u 0 k) / real (N2 w)) [0..<M2 w - n],
       born := take n (born w) @ map (\<lambda>k. t + sum_list (map geo [0..<Suc k])) [0..<M2 w - n],
       ident2 := take n (ident2 w) @ [fresh2 w..<fresh2 w + (M2 w - n)],
       fresh2 := fresh2 w + (M2 w - n)\<rparr>"

definition Targets2_leaving :: "nat \<Rightarrow> targets2 \<Rightarrow> targets2 \<times> bool" where
  "Targets2_leaving i w =
     (w\<lparr>score2 := score2 w + 1, missed2 := ident2 w ! i # missed2 w\<rparr>, True)"

definition Targets2_init ::
  "int \<Rightarrow> real \<Rightarrow> real \<Rightarrow> real \<Rightarrow> (nat \<Rightarrow> nat \<Rightarrow> real) \<Rightarrow> (nat \<Rightarrow> int) \<Rightarrow> error + targets2" where
  "Targets2_init gfps rate width v u geo =
     rbind (py_truediv rate (real_of_int gfps)) (\<lambda>r.
     rbind (Wave2_alloc gfps v 1 (targets2.fields r width 0 [])) (\<lambda>w.
       Wave2_start (Targets2_newcontent u geo 0 (int (N2 w) - 1) w)))"

definition Targets2_update ::
  "(nat \<Rightarrow> nat \<Rightarrow> real) \<Rightarrow> (nat \<Rightarrow> int) \<Rightarrow> targets2 \<Rightarrow> error + (targets2 \<times> bool)" where
  "Targets2_update u geo w =
     Wave2_update (Targets2_newcontent u geo) Targets2_leaving (\<lambda>i w. Inr w) w"

subsection \<open>Bullets\<close>

definition Bullets2_newcontent :: "nat \<Rightarrow> int \<Rightarrow> bullets2 \<Rightarrow> bullets2" where
  "Bullets2_newcontent n t w =
     w\<lparr>xpos2 := take n (xpos2 w) @ replicate (M2 w - n) (1 / 2),
       xspeed2 := take n (xspeed2 w) @ replicate (M2 w - n) 0,
       born := take n (born w) @ map (\<lambda>k. t + rload2 w * int (Suc k)) [0..<M2 w - n],
       ident2 := take n (ident2 w) @ [fresh2 w..<fresh2 w + (M2 w - n)],
       fresh2 := fresh2 w + (M2 w - n)\<rparr>"

definition Bullets2_entering :: "real \<Rightarrow> nat \<Rightarrow> bullets2 \<Rightarrow> error + bullets2" where
  "Bullets2_entering ax i w =
     (if i < length (xpos2 w) then Inr (w\<lparr>xpos2 := (xpos2 w)[i := ax]\<rparr>) else Inl IndexError)"

definition Bullets2_init :: "int \<Rightarrow> real \<Rightarrow> real \<Rightarrow> error + bullets2" where
  "Bullets2_init gfps rload v =
     rbind (Wave2_alloc gfps v (- 1) (bullets2.fields (py_int (rload * real_of_int gfps)))) (\<lambda>w.
       Wave2_start (Bullets2_newcontent 0 (int (N2 w) - 1) w))"

definition Bullets2_update :: "real \<Rightarrow> bullets2 \<Rightarrow> error + (bullets2 \<times> bool)" where
  "Bullets2_update ax w =
     Wave2_update Bullets2_newcontent (\<lambda>i w. (w, False)) (Bullets2_entering ax) w"

subsection \<open>Hits\<close>

text \<open>The collision test of \<open>Hits.update\<close> in module shooter2: \<open>x\<close>, \<open>v\<close> are the positions
  and speeds of the exposed targets and \<open>r\<close> their rows \<open>born - cslice[0]\<close>, and likewise
  \<open>x'\<close>, \<open>v'\<close>, \<open>r'\<close> for the bullets. The result lists the pairs \<open>(nz[k], nz1[k])\<close>, which
  are positions in the lists of exposed sprites.\<close>

definition Hits2_pairs ::
  "hits \<Rightarrow> real list \<Rightarrow> real list \<Rightarrow> int list \<Rightarrow> real list \<Rightarrow> real list \<Rightarrow> int list \<Rightarrow>
   error + (nat \<times> nat) list" where
  "Hits2_pairs h x v r x' v' r' =
     rbind (res_map (np_geti (clashmat h)) r) (\<lambda>rows.
     rbind (res_map (\<lambda>row. res_map (np_geti row) r') rows) (\<lambda>m.
       Inr [(i, j). i \<leftarrow> [0..<length x], j \<leftarrow> [0..<length x'],
            \<bar>(x' ! j - x ! i) + (v' ! j - v ! i) * (m ! i ! j)\<bar> < tol h
            \<and> m ! i ! j \<ge> 0 \<and> m ! i ! j \<le> 1]))"

text \<open>\<open>Hits.update\<close> of module shooter2.\<close>

definition Hits2_update ::
  "(targets2, bullets2) game \<Rightarrow> error + (targets2, bullets2) game" where
  "Hits2_update g =
     (let w = targets g; w' = bullets g; h = hits g; a = current2 w; a' = current2 w' in
      rbind
        (if 0 < length a \<and> 0 < length a' then
           rbind (get_all (xpos2 w') a') (\<lambda>x'.
           rbind (get_all (xpos2 w) a) (\<lambda>x.
           rbind (get_all (xspeed2 w') a') (\<lambda>v'.
           rbind (get_all (xspeed2 w) a) (\<lambda>v.
           rbind (get_all (born w) a) (\<lambda>b.
           rbind (get_all (born w') a') (\<lambda>b'.
           let r = map (\<lambda>t. t - fst (cslice w)) b;
               r' = map (\<lambda>t. t - fst (cslice w')) b'
           in
           rbind (Hits2_pairs h x v r x' v' r') (\<lambda>nz.
             if 0 < length nz then
               let ti = map (\<lambda>(i, j). ialive w ! i) nz;
                   bi = map (\<lambda>(i, j). ialive w' ! j) nz;
                   rnz = map (\<lambda>(i, j). np_idx (length (weight h)) (r ! i)) nz
               in Inr (g\<lparr>tr_hits := True,
                        hits := h\<lparr>score_h := score_h h + length nz,
                                  weight := put_all rnz (timeout h) (weight h),
                                  xpos_h := put_each rnz (map (\<lambda>i. xpos2 w ! i) ti) (xpos_h h),
                                  hitlog := map (\<lambda>i. ident2 w ! i) ti @ hitlog h\<rparr>,
                        targets := w\<lparr>alive := put_all ti False (alive w)\<rparr>,
                        bullets := w'\<lparr>alive := put_all bi False (alive w')\<rparr>\<rparr>)
             else Inr g)))))))
         else Inr g)
        (\<lambda>g'. Inr (g'\<lparr>hits := Hits_age (hits g')\<rparr>)))"

subsection \<open>Game\<close>

type_synonym game2 = "(targets2, bullets2) game"

definition Targets2_step :: "(nat \<Rightarrow> nat \<Rightarrow> real) \<Rightarrow> (nat \<Rightarrow> int) \<Rightarrow> game2 \<Rightarrow> error + game2" where
  "Targets2_step u geo g =
     rbind (Targets2_update u geo (targets g)) (\<lambda>(w, miss).
       Inr (g\<lparr>targets := w, tr_miss := (miss \<or> tr_miss g)\<rparr>))"

definition Bullets2_step :: "game2 \<Rightarrow> error + game2" where
  "Bullets2_step g =
     rbind (Bullets2_update (fst (pos (avatar g))) (bullets g)) (\<lambda>(w, miss).
       Inr (g\<lparr>bullets := w, tr_miss := (miss \<or> tr_miss g)\<rparr>))"

definition components2 :: "frame \<Rightarrow> (game2 \<Rightarrow> error + game2) list" where
  "components2 f =
     [\<lambda>g. Inr (Avatar_update g), Targets2_step (unif f) (geom f), Bullets2_step, Hits2_update]"

text \<open>\<open>Game.__init__\<close> with the component classes of module shooter2.\<close>

definition Game2_init :: "config \<Rightarrow> (nat \<Rightarrow> nat \<Rightarrow> real) \<Rightarrow> (nat \<Rightarrow> int) \<Rightarrow> error + game2" where
  "Game2_init c u geo =
     rbind (Avatar_init (c_fps c) (avatar_x c) (avatar_y c) (avatar_v c)) (\<lambda>a.
     rbind (Targets2_init (c_fps c) (targets_rate c) (targets_width c) (targets_v c) u geo) (\<lambda>t.
     rbind (Bullets2_init (c_fps c) (bullets_rload c) (bullets_v c)) (\<lambda>b.
     rbind (Hits_init (c_fps c) (hits_timeout c) (width2 t) (ypos2 t) (N2 t) (ypos2 b) (N2 b)) (\<lambda>h.
       Inr \<lparr>fps = c_fps c, tr_move = 0, tr_quit = False, tr_hits = False, tr_miss = False,
            nstep = 0, gameover = False, status = [Txt ''time: 0''], perf = 0,
            avatar = a, targets = t, bullets = b, hits = h\<rparr>))))"

definition frame2 :: "frame \<Rightarrow> game2 \<Rightarrow> error + game2" where
  "frame2 f g = Game_update (components2 f) score2 (clock_dt f) (userinput (keys f) g)"

fun loop2 :: "frame list \<Rightarrow> game2 \<Rightarrow> error + game2" where
  "loop2 [] g = Inr g"
| "loop2 (f # fs) g = (if gameover g then Inr g else rbind (frame2 f g) (loop2 fs))"

section \<open>Well-formedness\<close>

text \<open>The arrays of a wave of the first variant have \<open>2 * N\<close> cells and the cursor is
  inside the first half; a page has \<open>N\<close> cells.\<close>

definition wf1 :: "'a wave1_scheme \<Rightarrow> bool" where
  "wf1 w \<longleftrightarrow> n1 w < N1 w \<and> length (xpos1 w) = 2 * N1 w \<and> length (xspeed1 w) = 2 * N1 w
            \<and> length (visible1 w) = 2 * N1 w \<and> length (ident1 w) = 2 * N1 w"

definition page_ok :: "('a wave1_scheme \<Rightarrow> error + page) \<Rightarrow> bool" where
  "page_ok np \<longleftrightarrow> (\<forall>w xp xs vs. np w = Inr (xp, xs, vs) \<longrightarrow>
      length xp = N1 w \<and> length xs = N1 w \<and> length vs = N1 w)"

text \<open>The invariant of the first variant that ties the scores to the sprites counted:
  the sprites in the slots from the cursor on are numbered apart, with numbers below
  \<open>fresh1\<close>; none of them has been counted as a miss; those counted as a hit are
  invisible; no sprite is in both logs; and each score is the length of its log.\<close>

definition inv1 :: "targets1 \<Rightarrow> hits \<Rightarrow> bool" where
  "inv1 w h \<longleftrightarrow> wf1 w
     \<and> distinct (drop (n1 w) (ident1 w))
     \<and> (\<forall>i \<in> set (drop (n1 w) (ident1 w)) \<union> set (missed1 w) \<union> set (hitlog h). i < fresh1 w)
     \<and> set (missed1 w) \<inter> set (drop (n1 w) (ident1 w)) = {}
     \<and> (\<forall>k < length (drop (n1 w) (ident1 w)).
           drop (n1 w) (ident1 w) ! k \<in> set (hitlog h) \<longrightarrow> \<not> drop (n1 w) (visible1 w) ! k)
     \<and> set (hitlog h) \<inter> set (missed1 w) = {}
     \<and> score1 w = length (missed1 w) \<and> score_h h = length (hitlog h)"


text \<open>\<open>clashmat[i, j]\<close> for integer indices in range.\<close>

definition clash_at :: "hits \<Rightarrow> int \<Rightarrow> int \<Rightarrow> real" where
  "clash_at h i j =
     clashmat h ! np_idx (length (clashmat h)) i !
       np_idx (length (clashmat h ! np_idx (length (clashmat h)) i)) j"

section \<open>Sample configurations\<close>

text \<open>A small configuration for concrete runs: one frame per second and waves of speed
  1, so that both windows hold one sprite (\<open>N = 1\<close>); every target is visible, a bullet is
  fired every frame, and a hit marker lasts two frames. For the first variant the random
  source puts every target at the horizontal position \<open>x\<close>, with no drift.\<close>

definition demo_config :: config where
  "demo_config =
     \<lparr>c_fps = 1, avatar_x = 1 / 2, avatar_y = - 1 / 20, avatar_v = 1 / 8,
      targets_v = 1, targets_rate = 1, targets_width = 1 / 25,
      bullets_v = 1, bullets_rload = 1, hits_timeout = 2\<rparr>"

definition demo_unif :: "real \<Rightarrow> nat \<Rightarrow> nat \<Rightarrow> real" where
  "demo_unif x r k = (if r = 2 then 0 else x)"

definition demo_frame :: "int \<Rightarrow> real \<Rightarrow> frame" where
  "demo_frame ks x = \<lparr>keys = ks, clock_dt = 0, unif = demo_unif x, geom = (\<lambda>k. 1)\<rparr>"

definition demo_game1 :: "real \<Rightarrow> game1" where
  "demo_game1 x = projr (Game1_init demo_config (demo_unif x))"

text \<open>A game of which only the avatar matters.\<close>

definition demo_avatar_game :: "(unit, unit) game" where
  "demo_avatar_game =
     \<lparr>fps = 25, tr_move = 0, tr_quit = False, tr_hits = False, tr_miss = False,
      nstep = 0, gameover = False, status = [Txt ''time: 0''], perf = 0,
      avatar = \<lparr>pos = (1 / 2, - 1 / 20), xspeed_a = 3 / 10\<rparr>, targets = (), bullets = (),
      hits = \<lparr>timeout = 0, tol = 0, clashmat = [], ypos_h = [], xpos_h = [], weight = [],
               score_h = 0, hitlog = []\<rparr>\<rparr>"

text \<open>A wave of targets and a wave of bullets of the first variant with \<open>N = 2\<close>; the
  targets drift by 1/4 per frame.\<close>

definition demo_drift :: "nat \<Rightarrow> nat \<Rightarrow> real" where
  "demo_drift r k = (if r = 0 then 1 / 4 else if r = 1 then 3 / 4 else 0)"

definition demo_targets1 :: targets1 where
  "demo_targets1 =
     fst (projr (Targets1_update demo_drift (projr (Targets1_init 2 1 (1 / 25) 1 demo_drift))))"

definition demo_bullets1 :: bullets1 where
  "demo_bullets1 = projr (Bullets1_init 2 (1 / 2) 1)"

section \<open>Verification\<close>

subsection \<open>Results that may raise\<close>

lemma rbind_Inr_iff: "rbind m f = Inr y \<longleftrightarrow> (\<exists>x. m = Inr x \<and> f x = Inr y)"
  by (cases m) (simp_all add: rbind_def)

lemma rbind_Inr [simp]: "rbind (Inr x) f = f x"
  by (simp add: rbind_def)

lemma rbind_Inl [simp]: "rbind (Inl e) f = Inl e"
  by (simp add: rbind_def)

subsection \<open>Avatar\<close>

lemma Avatar_update_x:
  "fst (pos (avatar (Avatar_update g))) =
     clip (fst (pos (avatar g)) + real_of_int (tr_move g) * xspeed_a (avatar g)) 0 1"
  by (simp add: Avatar_update_def Let_def)

lemma clip_unit: "0 \<le> clip (x::real) 0 1 \<and> clip x 0 1 \<le> 1"
  by (simp add: clip_def)

lemma Avatar_moves_snoc:
  "Avatar_moves (ms @ [m]) g = Avatar_update ((Avatar_moves ms g)\<lparr>tr_move := m\<rparr>)"
  by (induction ms arbitrary: g) simp_all

text \<open>
  Claim C8. Each \<open>Avatar.update\<close> adds \<open>moveCommand * xspeed\<close> to \<open>x\<close> and clips the sum to
  \<open>[0, 1]\<close>; hence after every non-empty sequence of move commands taken from
  \<open>{-2, -1, 0, 1, 2}\<close> the avatar's horizontal position lies in \<open>[0, 1]\<close>, bounds included.
\<close>

theorem C8_avatar_clamp:
  assumes "set ms \<subseteq> {-2, -1, 0, 1, 2}" and "ms \<noteq> []"
  shows "fst (pos (avatar (Avatar_update (g\<lparr>tr_move := m\<rparr>)))) =
           min (max (fst (pos (avatar g)) + real_of_int m * xspeed_a (avatar g)) 0) 1
         \<and> 0 \<le> fst (pos (avatar (Avatar_moves ms g)))
         \<and> fst (pos (avatar (Avatar_moves ms g))) \<le> 1"
proof -
  have step: "fst (pos (avatar (Avatar_update (g\<lparr>tr_move := m\<rparr>)))) =
           min (max (fst (pos (avatar g)) + real_of_int m * xspeed_a (avatar g)) 0) 1"
    by (simp add: Avatar_update_x clip_def)
  from assms(2) obtain ms' m' where ms: "ms = ms' @ [m']"
    by (cases ms rule: rev_cases) auto
  have "0 \<le> fst (pos (avatar (Avatar_moves ms g)))"
    and "fst (pos (avatar (Avatar_moves ms g))) \<le> 1"
    unfolding ms Avatar_moves_snoc Avatar_update_x using clip_unit by blast+
  with step show ?thesis by blast
qed

theorem C8_avatar_clamp_witness:
  "set [2, 2, - 1] \<subseteq> {- 2, - 1, 0, 1, 2 :: int} \<and> [2, 2, - 1 :: int] \<noteq> []
   \<and> fst (pos (avatar (Avatar_update (demo_avatar_game\<lparr>tr_move := 2\<rparr>)))) = 1
   \<and> 0 \<le> fst (pos (avatar (Avatar_moves [2, 2, - 1] demo_avatar_game)))
   \<and> fst (pos (avatar (Avatar_moves [2, 2, - 1] demo_avatar_game))) \<le> 1"
proof -
  have h: "set [2, 2, - 1] \<subseteq> {- 2, - 1, 0, 1, 2 :: int}" "[2, 2, - 1 :: int] \<noteq> []"
    by simp_all
  show ?thesis
    using h C8_avatar_clamp [OF h, where g = demo_avatar_game and m = 2]
    by (simp add: demo_avatar_game_def)
qed

subsection \<open>Score formatting\<close>

lemma score_text_eq:
  "score_text hit tot =
     Inr (if tot = 0 then Txt ''*'' else Fmt ''.2f'' (100 * real hit / real tot))"
  by (simp add: score_text_def py_truediv_def)

text \<open>
  Claim C7. In \<open>Game.update\<close>, when \<open>total = hits.score + targets.score\<close> is 0 the
  percentage in the status line is the text \<open>*\<close> and no division is performed (the
  formatting does not raise); when \<open>total > 0\<close> it is \<open>100 * hit / total\<close> under the format
  \<open>{:.2f}\<close>. The status line of a frame that runs is built from the scores the components
  leave.
\<close>

theorem C7_score_sentinel:
  assumes "\<not> tr_quit g" and "run_all comps g = Inr g1"
    and "Game_update comps tscore dt g = Inr g'"
  shows "score_text hit 0 = Inr (Txt ''*'')
       \<and> (0 < tot \<longrightarrow> score_text hit tot = Inr (Fmt ''.2f'' (100 * real hit / real tot)))
       \<and> status g' =
           [Txt ''time: '', Fmt ''06.1f'' (real (nstep g1 + 1) / real_of_int (fps g1)),
            Txt ''; hit: '', Dec (int (score_h (hits g1))),
            Txt ''; miss: '', Dec (int (tscore (targets g1))), Txt ''; score: '',
            if tscore (targets g1) + score_h (hits g1) = 0 then Txt ''*''
            else Fmt ''.2f'' (100 * real (score_h (hits g1)) /
                               real (tscore (targets g1) + score_h (hits g1)))]"
  using assms
  by (auto simp add: Game_update_def score_text_eq rbind_Inr_iff py_truediv_def Let_def
      split: if_splits)

theorem C7_score_sentinel_witness:
  "\<not> tr_quit (userinput 0 (demo_game1 (1 / 2)))
   \<and> status (projr (frame1 (demo_frame 0 (1 / 2)) (demo_game1 (1 / 2)))) ! 7 = Fmt ''.2f'' 100
   \<and> status (projr (frame1 (demo_frame 0 (1 / 10)) (demo_game1 (1 / 10)))) ! 7 = Txt ''*''"
proof -
  let ?f = "demo_frame 0 (1 / 2)" and ?g = "userinput 0 (demo_game1 (1 / 2))"
  let ?f' = "demo_frame 0 (1 / 10)" and ?g' = "userinput 0 (demo_game1 (1 / 10))"
  have q: "\<not> tr_quit ?g" "\<not> tr_quit ?g'"
    by code_simp+
  have r: "run_all (components1 ?f) ?g = Inr (projr (run_all (components1 ?f) ?g))"
    by code_simp
  have u: "Game_update (components1 ?f) score1 (clock_dt ?f) ?g
            = Inr (projr (frame1 ?f (demo_game1 (1 / 2))))"
    by code_simp
  have r': "run_all (components1 ?f') ?g' = Inr (projr (run_all (components1 ?f') ?g'))"
    by code_simp
  have u': "Game_update (components1 ?f') score1 (clock_dt ?f') ?g'
            = Inr (projr (frame1 ?f' (demo_game1 (1 / 10))))"
    by code_simp
  have s: "score1 (targets (projr (run_all (components1 ?f) ?g))) = 0"
    "score_h (hits (projr (run_all (components1 ?f) ?g))) = 1"
    "score1 (targets (projr (run_all (components1 ?f') ?g'))) = 0"
    "score_h (hits (projr (run_all (components1 ?f') ?g'))) = 0"
    by code_simp+
  show ?thesis
    using C7_score_sentinel [OF q(1) r u, of 0 1] C7_score_sentinel [OF q(2) r' u', of 0 1] q s
    by simp
qed

subsection \<open>Hit markers\<close>

text \<open>After the aging step no weight is negative, as long as the timeout is not.\<close>

lemma Hits_age_nonneg:
  "0 \<le> timeout h \<Longrightarrow> w \<in> set (weight (Hits_age h)) \<Longrightarrow> 0 \<le> w"
  by (auto simp add: Hits_age_def clip_def)

text \<open>A marker whose weight is \<open>k\<close> when \<open>update\<close> has set it has weight
  \<open>min (max (k - 1) 0) timeout\<close> when \<open>display\<close> reads it: the weight that \<open>update\<close> sets
  to \<open>timeout\<close> is decremented by the same call.\<close>

lemma Hits_age_weight:
  "i < length (weight h) \<Longrightarrow>
   weight (Hits_age h) ! i = min (max (weight h ! i - 1) 0) (timeout h)"
  by (simp add: Hits_age_def clip_def)

text \<open>
  Claim C2 says that a marker set at frame \<open>F\<close> is displayed at the frames \<open>F\<close> to
  \<open>F + timeout - 1\<close>. The run below has \<open>timeout = 2\<close>: at frame 1 the bullet fired at
  \<open>x = 1/2\<close> meets the target at \<open>x = 1/2\<close>, and the marker's weight is 1 when the frame is
  displayed; at frame 2 the avatar has moved, no collision occurs, and the weight is 0:
  the marker is displayed at frame \<open>F\<close> only, not at \<open>F + timeout - 1\<close>.
\<close>

theorem C2_marker_one_frame_short:
  "timeout (hits (demo_game1 (1 / 2))) = 2
   \<and> (case loop1 [demo_frame 0 (1 / 2)] (demo_game1 (1 / 2)) of
        Inl e \<Rightarrow> False
      | Inr g \<Rightarrow> score_h (hits g) = 1 \<and> weight (hits g) = [1] \<and> Hits_display (hits g) = [True])
   \<and> (case loop1 [demo_frame 0 (1 / 2), demo_frame 2 (1 / 2)] (demo_game1 (1 / 2)) of
        Inl e \<Rightarrow> False
      | Inr g \<Rightarrow> score_h (hits g) = 1 \<and> weight (hits g) = [0] \<and> Hits_display (hits g) = [False])"
  by code_simp

subsection \<open>The window of the first variant\<close>

lemma length_add_range [simp]: "length (add_range n m vs xs) = length xs"
  by (simp add: add_range_def)

lemma nth_add_range:
  "i < length xs \<Longrightarrow> add_range n m vs xs ! i = (if n \<le> i \<and> i < m then xs ! i + vs ! i else xs ! i)"
  by (simp add: add_range_def)

lemma copy_back_take: "length xs = 2 * N \<Longrightarrow> take N (copy_back N xs) = drop N xs"
  by (simp add: copy_back_def)

lemma length_copy_back: "length xs = 2 * N \<Longrightarrow> length (copy_back N xs) = 2 * N"
  by (simp add: copy_back_def)

text \<open>The effect of the shift on the slots from the cursor on.\<close>

lemma Wave1_shift_effect:
  assumes wf: "wf1 w" and ok: "page_ok np" and sh: "Wave1_shift np w = Inr w'"
  shows "wf1 w' \<and> N1 w' = N1 w \<and> wave1.more w' = wave1.more w
    \<and> (\<exists>xp. drop (n1 w') (xpos1 w') =
           drop (Suc (n1 w)) (add_range (n1 w) (n1 w + N1 w) (xspeed1 w) (xpos1 w)) @ xp)
    \<and> (\<exists>xs. drop (n1 w') (xspeed1 w') = drop (Suc (n1 w)) (xspeed1 w) @ xs)
    \<and> (\<exists>vs. drop (n1 w') (visible1 w') = drop (Suc (n1 w)) (visible1 w) @ vs)
    \<and> drop (n1 w') (ident1 w') = drop (Suc (n1 w)) (ident1 w) @
          (if n1 w + 1 = N1 w then [fresh1 w..<fresh1 w + N1 w] else [])
    \<and> fresh1 w' = (if n1 w + 1 = N1 w then fresh1 w + N1 w else fresh1 w)"
proof (cases "n1 w + 1 = N1 w")
  case False
  with sh have w': "w' = w\<lparr>xpos1 := add_range (n1 w) (n1 w + N1 w) (xspeed1 w) (xpos1 w), n1 := n1 w + 1\<rparr>"
    by (simp add: Wave1_shift_def Let_def)
  from wf False show ?thesis
    unfolding w' by (simp add: wf1_def)
next
  case True
  define wd where "wd = w\<lparr>xpos1 := copy_back (N1 w) (add_range (n1 w) (n1 w + N1 w) (xspeed1 w) (xpos1 w)),
                       xspeed1 := copy_back (N1 w) (xspeed1 w),
                       visible1 := copy_back (N1 w) (visible1 w),
                       ident1 := copy_back (N1 w) (ident1 w)\<rparr>"
  from sh True obtain pg where pg: "np wd = Inr pg" and w': "w' = (set_page pg wd)\<lparr>n1 := 0\<rparr>"
    by (auto simp add: Wave1_shift_def Let_def wd_def rbind_Inr_iff)
  obtain xp xs vs where p: "pg = (xp, xs, vs)" by (cases pg) auto
  have N: "N1 wd = N1 w" by (simp add: wd_def)
  from ok pg p N have len: "length xp = N1 w" "length xs = N1 w" "length vs = N1 w"
    by (auto simp add: page_ok_def)
  from wf have l: "length (xpos1 w) = 2 * N1 w" "length (xspeed1 w) = 2 * N1 w"
      "length (visible1 w) = 2 * N1 w" "length (ident1 w) = 2 * N1 w" "n1 w < N1 w"
    by (simp_all add: wf1_def)
  have S: "Suc (n1 w) = N1 w" using True by simp
  have pos: "0 < N1 w" using l(5) by simp
  show ?thesis
    unfolding w' p using len l True pos
    by (simp add: set_page_def wd_def wf1_def copy_back_take S)
qed


lemma page_ok_Targets1: "page_ok (Targets1_newpage u)"
  by (simp add: page_ok_def Targets1_newpage_def)

lemma page_ok_Bullets1: "page_ok Bullets1_newpage"
  by (auto simp add: page_ok_def Bullets1_newpage_def split: if_splits)

lemma Targets1_hooks:
  assumes "wf1 w"
  shows "Wave1_hooks Targets1_leaving (\<lambda>i w. w) w =
     Inr (if visible1 w ! n1 w
          then w\<lparr>score1 := score1 w + 1, missed1 := ident1 w ! n1 w # missed1 w\<rparr> else w,
          visible1 w ! n1 w)"
  using assms
  by (simp add: Wave1_hooks_def Targets1_leaving_def np_get_def wf1_def Let_def)

lemma Bullets1_hooks:
  assumes "wf1 w"
  shows "Wave1_hooks (\<lambda>i w. (w, False)) (Bullets1_entering ax) w =
     Inr (if visible1 w ! (n1 w + N1 w)
          then w\<lparr>xpos1 := (xpos1 w)[n1 w + N1 w := ax]\<rparr> else w, False)"
  using assms
  by (simp add: Wave1_hooks_def Bullets1_entering_def np_get_def wf1_def Let_def)

lemma wf1_window:
  assumes "wf1 w" and "k < N1 w"
  shows "fst (current1 w) ! k = xpos1 w ! (n1 w + k)"
    and "fst (snd (current1 w)) ! k = xspeed1 w ! (n1 w + k)"
    and "snd (snd (current1 w)) ! k = visible1 w ! (n1 w + k)"
  using assms by (simp_all add: current1_def slice_def wf1_def)

text \<open>The window of positions after a shift, in the slots before it.\<close>

lemma Wave1_shift_window:
  assumes wf: "wf1 w" and ok: "page_ok np" and sh: "Wave1_shift np w = Inr w'" and k: "k < N1 w"
  shows "fst (current1 w') ! k =
           (if Suc k < N1 w then xpos1 w ! (n1 w + Suc k) + xspeed1 w ! (n1 w + Suc k)
            else xpos1 w ! (n1 w + N1 w))"
proof -
  from Wave1_shift_effect [OF wf ok sh] obtain xp where
    e: "wf1 w'" "N1 w' = N1 w"
    "drop (n1 w') (xpos1 w') =
       drop (Suc (n1 w)) (add_range (n1 w) (n1 w + N1 w) (xspeed1 w) (xpos1 w)) @ xp"
    by blast
  from wf have l: "length (xpos1 w) = 2 * N1 w" "n1 w < N1 w"
    by (simp_all add: wf1_def)
  have "fst (current1 w') ! k = drop (n1 w') (xpos1 w') ! k"
    using k e(2) by (simp add: current1_def slice_def)
  also have "\<dots> = add_range (n1 w) (n1 w + N1 w) (xspeed1 w) (xpos1 w) ! (Suc (n1 w) + k)"
  proof -
    have "k < 2 * N1 w - Suc (n1 w)" using k l by arith
    then show ?thesis unfolding e(3) using l by (simp add: nth_append)
  qed
  also have "\<dots> = (if Suc k < N1 w then xpos1 w ! (n1 w + Suc k) + xspeed1 w ! (n1 w + Suc k)
            else xpos1 w ! (n1 w + N1 w))"
  proof (cases "Suc k < N1 w")
    case True
    then show ?thesis using l by (simp add: nth_add_range)
  next
    case False
    with k have N: "N1 w = Suc k" by arith
    show ?thesis using l by (simp add: nth_add_range N)
  qed
  finally show ?thesis .
qed

text \<open>
  Claim C10. In the first variant \<open>Wave.update\<close> advances the positions of the slots
  \<open>[n, n + N)\<close> only. So in the window after the update every sprite but the last has
  moved by its speed, and the last one, which entered from slot \<open>n + N\<close>, has the position
  it was given at entry: for a target the one drawn by \<open>newpage\<close>, for a visible bullet the
  avatar's position \<open>ax\<close> that \<open>entering\<close> stored.
\<close>

theorem C10_entering_sprite_unmoved:
  assumes "wf1 w" and "Targets1_update u w = Inr (w', miss)"
    and "wf1 b" and "Bullets1_update ax b = Inr (b', miss')"
  shows "(\<forall>k. Suc k < N1 w \<longrightarrow>
            fst (current1 w') ! k = fst (current1 w) ! Suc k + fst (snd (current1 w)) ! Suc k)
       \<and> fst (current1 w') ! (N1 w - 1) = xpos1 w ! (n1 w + N1 w)
       \<and> (\<forall>k. Suc k < N1 b \<longrightarrow>
            fst (current1 b') ! k = fst (current1 b) ! Suc k + fst (snd (current1 b)) ! Suc k)
       \<and> fst (current1 b') ! (N1 b - 1) =
            (if visible1 b ! (n1 b + N1 b) then ax else xpos1 b ! (n1 b + N1 b))"
proof -
  let ?wb = "if visible1 w ! n1 w
          then w\<lparr>score1 := score1 w + 1, missed1 := ident1 w ! n1 w # missed1 w\<rparr> else w"
  let ?bb = "if visible1 b ! (n1 b + N1 b)
          then b\<lparr>xpos1 := (xpos1 b)[n1 b + N1 b := ax]\<rparr> else b"
  from assms(2) have sw: "Wave1_shift (Targets1_newpage u) ?wb = Inr w'"
    by (auto simp add: Targets1_update_def Wave1_update_def Targets1_hooks [OF assms(1)]
        rbind_Inr_iff split: if_splits)
  from assms(4) have sb: "Wave1_shift Bullets1_newpage ?bb = Inr b'"
    by (auto simp add: Bullets1_update_def Wave1_update_def Bullets1_hooks [OF assms(3)]
        rbind_Inr_iff split: if_splits)
  have wfw: "wf1 ?wb" using assms(1) by (simp add: wf1_def)
  have wfb: "wf1 ?bb" using assms(3) by (simp add: wf1_def)
  have Nw: "0 < N1 w" and Nb: "0 < N1 b" and lb: "length (xpos1 b) = 2 * N1 b" "n1 b < N1 b"
    using assms(1,3) by (simp_all add: wf1_def)
  have 1: "fst (current1 w') ! k = fst (current1 w) ! Suc k + fst (snd (current1 w)) ! Suc k"
    if "Suc k < N1 w" for k
    using Wave1_shift_window [OF wfw page_ok_Targets1 sw, of k] that
      wf1_window [OF assms(1), of "Suc k"]
    by (simp split: if_splits)
  have 2: "fst (current1 w') ! (N1 w - 1) = xpos1 w ! (n1 w + N1 w)"
    using Wave1_shift_window [OF wfw page_ok_Targets1 sw, of "N1 w - 1"] Nw
    by (simp split: if_splits)
  have 3: "fst (current1 b') ! k = fst (current1 b) ! Suc k + fst (snd (current1 b)) ! Suc k"
    if "Suc k < N1 b" for k
    using Wave1_shift_window [OF wfb page_ok_Bullets1 sb, of k] that
      wf1_window [OF assms(3), of "Suc k"]
    by (simp split: if_splits)
  have 4: "fst (current1 b') ! (N1 b - 1) =
            (if visible1 b ! (n1 b + N1 b) then ax else xpos1 b ! (n1 b + N1 b))"
    using Wave1_shift_window [OF wfb page_ok_Bullets1 sb, of "N1 b - 1"] Nb lb
    by (simp split: if_splits)
  from 1 2 3 4 show ?thesis by blast
qed

theorem C10_entering_sprite_unmoved_witness:
  "wf1 demo_targets1 \<and> wf1 demo_bullets1
   \<and> fst (current1 demo_targets1) = [0, 1 / 4] \<and> fst (snd (current1 demo_targets1)) = [0, 1 / 4]
   \<and> xpos1 demo_targets1 ! (n1 demo_targets1 + N1 demo_targets1) = 1 / 4
   \<and> fst (current1 (fst (projr (Targets1_update demo_drift demo_targets1)))) ! 0 = 1 / 2
   \<and> fst (current1 (fst (projr (Targets1_update demo_drift demo_targets1)))) ! 1 = 1 / 4
   \<and> fst (current1 (fst (projr (Bullets1_update (7 / 10) demo_bullets1)))) ! 1 = 7 / 10"
proof -
  let ?w = "projr (Targets1_update demo_drift demo_targets1)"
  let ?b = "projr (Bullets1_update (7 / 10) demo_bullets1)"
  have wf: "wf1 demo_targets1" "wf1 demo_bullets1"
    by code_simp+
  have u: "Targets1_update demo_drift demo_targets1 = Inr (fst ?w, snd ?w)"
    "Bullets1_update (7 / 10) demo_bullets1 = Inr (fst ?b, snd ?b)"
    by code_simp+
  note c = C10_entering_sprite_unmoved [OF wf(1) u(1) wf(2) u(2)]
  have N: "Suc 0 < N1 demo_targets1" "N1 demo_targets1 - 1 = 1" "N1 demo_bullets1 - 1 = 1"
    by code_simp+
  have e: "fst (current1 demo_targets1) = [0, 1 / 4]"
    "fst (snd (current1 demo_targets1)) = [0, 1 / 4]"
    "xpos1 demo_targets1 ! (n1 demo_targets1 + N1 demo_targets1) = 1 / 4"
    "visible1 demo_bullets1 ! (n1 demo_bullets1 + N1 demo_bullets1)"
    by code_simp+
  from c N(1) have "fst (current1 (fst ?w)) ! 0 =
      fst (current1 demo_targets1) ! Suc 0 + fst (snd (current1 demo_targets1)) ! Suc 0"
    by blast
  then have 1: "fst (current1 (fst ?w)) ! 0 = 1 / 2"
    unfolding e by simp
  from c have "fst (current1 (fst ?w)) ! (N1 demo_targets1 - 1) =
      xpos1 demo_targets1 ! (n1 demo_targets1 + N1 demo_targets1)"
    by blast
  then have 2: "fst (current1 (fst ?w)) ! 1 = 1 / 4"
    unfolding e N .
  from c have "fst (current1 (fst ?b)) ! (N1 demo_bullets1 - 1) =
      (if visible1 demo_bullets1 ! (n1 demo_bullets1 + N1 demo_bullets1) then 7 / 10
       else xpos1 demo_bullets1 ! (n1 demo_bullets1 + N1 demo_bullets1))"
    by blast
  then have 3: "fst (current1 (fst ?b)) ! 1 = 7 / 10"
    unfolding N using e(4) by simp
  from wf e 1 2 3 show ?thesis by blast
qed

subsection \<open>The collision test\<close>

lemma set_nonzero: "set (nonzero bs) = {i. i < length bs \<and> bs ! i}"
  by (auto simp add: nonzero_def)

lemma Hits1_pairs_set:
  assumes "Hits1_pairs h (x, v, vis) (x', v', vis') = Inr nz"
  shows "set nz = {(a, b). a < length (nonzero vis) \<and> b < length (nonzero vis') \<and>
           \<bar>(x' ! (nonzero vis' ! b) - x ! (nonzero vis ! a)) +
             (v' ! (nonzero vis' ! b) - v ! (nonzero vis ! a)) *
               (clashmat h ! (nonzero vis ! a) ! (nonzero vis' ! b))\<bar> < tol h
           \<and> 0 \<le> clashmat h ! (nonzero vis ! a) ! (nonzero vis' ! b)
           \<and> clashmat h ! (nonzero vis ! a) ! (nonzero vis' ! b) \<le> 1}"
  using assms by (auto simp add: Hits1_pairs_def split: if_splits)

lemma Hits1_pairs_offsets:
  assumes p: "Hits1_pairs h (x, v, vis) (x', v', vis') = Inr nz"
    and i: "i < length vis" "vis ! i" and j: "j < length vis'" "vis' ! j"
  shows "(i, j) \<in> set (map (\<lambda>(a, b). (nonzero vis ! a, nonzero vis' ! b)) nz) \<longleftrightarrow>
         0 \<le> clashmat h ! i ! j \<and> clashmat h ! i ! j \<le> 1 \<and>
         \<bar>(x' ! j - x ! i) + (v' ! j - v ! i) * (clashmat h ! i ! j)\<bar> < tol h"
proof -
  from i have "i \<in> set (nonzero vis)" by (simp add: set_nonzero)
  then obtain a where a: "a < length (nonzero vis)" "nonzero vis ! a = i"
    by (auto simp add: in_set_conv_nth)
  from j have "j \<in> set (nonzero vis')" by (simp add: set_nonzero)
  then obtain b where b: "b < length (nonzero vis')" "nonzero vis' ! b = j"
    by (auto simp add: in_set_conv_nth)
  show ?thesis
  proof
    assume "(i, j) \<in> set (map (\<lambda>(a, b). (nonzero vis ! a, nonzero vis' ! b)) nz)"
    then obtain a' b' where "(a', b') \<in> set nz" "nonzero vis ! a' = i" "nonzero vis' ! b' = j"
      by auto
    then show "0 \<le> clashmat h ! i ! j \<and> clashmat h ! i ! j \<le> 1 \<and>
         \<bar>(x' ! j - x ! i) + (v' ! j - v ! i) * (clashmat h ! i ! j)\<bar> < tol h"
      unfolding Hits1_pairs_set [OF p] by auto
  next
    assume "0 \<le> clashmat h ! i ! j \<and> clashmat h ! i ! j \<le> 1 \<and>
         \<bar>(x' ! j - x ! i) + (v' ! j - v ! i) * (clashmat h ! i ! j)\<bar> < tol h"
    with a b have "(a, b) \<in> set nz"
      unfolding Hits1_pairs_set [OF p] by simp
    then have "(\<lambda>(a, b). (nonzero vis ! a, nonzero vis' ! b)) (a, b)
        \<in> set (map (\<lambda>(a, b). (nonzero vis ! a, nonzero vis' ! b)) nz)"
      unfolding set_map by (rule imageI)
    with a b show "(i, j) \<in> set (map (\<lambda>(a, b). (nonzero vis ! a, nonzero vis' ! b)) nz)"
      by simp
  qed
qed

lemma res_map_Inr:
  "res_map f xs = Inr ys \<Longrightarrow> length ys = length xs \<and> (\<forall>i<length xs. f (xs ! i) = Inr (ys ! i))"
proof (induction xs arbitrary: ys)
  case Nil
  then show ?case by simp
next
  case (Cons x xs)
  from Cons.prems obtain y ys' where y: "f x = Inr y" and r: "res_map f xs = Inr ys'"
    and ys: "ys = y # ys'"
    by (auto simp add: rbind_Inr_iff)
  from Cons.IH [OF r] y show ?case
    unfolding ys by (auto simp add: nth_Cons split: nat.splits)
qed

lemma np_geti_Inr: "np_geti xs i = Inr y \<Longrightarrow> y = xs ! np_idx (length xs) i"
  by (auto simp add: np_geti_def np_idx_def split: if_splits)

lemma Hits2_pairs_iff:
  assumes p: "Hits2_pairs h x v r x' v' r' = Inr nz"
    and i: "i < length x" "length r = length x" and j: "j < length x'" "length r' = length x'"
  shows "(i, j) \<in> set nz \<longleftrightarrow>
         0 \<le> clashmat h ! np_idx (length (clashmat h)) (r ! i) !
               np_idx (length (clashmat h ! np_idx (length (clashmat h)) (r ! i))) (r' ! j)
         \<and> clashmat h ! np_idx (length (clashmat h)) (r ! i) !
               np_idx (length (clashmat h ! np_idx (length (clashmat h)) (r ! i))) (r' ! j) \<le> 1
         \<and> \<bar>(x' ! j - x ! i) + (v' ! j - v ! i) *
               (clashmat h ! np_idx (length (clashmat h)) (r ! i) !
               np_idx (length (clashmat h ! np_idx (length (clashmat h)) (r ! i))) (r' ! j))\<bar> < tol h"
proof -
  from p obtain rows m where rows: "res_map (np_geti (clashmat h)) r = Inr rows"
    and m: "res_map (\<lambda>row. res_map (np_geti row) r') rows = Inr m"
    and nz: "nz = [(i, j). i \<leftarrow> [0..<length x], j \<leftarrow> [0..<length x'],
            \<bar>(x' ! j - x ! i) + (v' ! j - v ! i) * (m ! i ! j)\<bar> < tol h
            \<and> m ! i ! j \<ge> 0 \<and> m ! i ! j \<le> 1]"
    by (auto simp add: Hits2_pairs_def rbind_Inr_iff)
  from res_map_Inr [OF rows] i have ri: "np_geti (clashmat h) (r ! i) = Inr (rows ! i)"
    and lr: "length rows = length x" by auto
  from res_map_Inr [OF m] i lr have mi: "res_map (np_geti (rows ! i)) r' = Inr (m ! i)"
    by auto
  from res_map_Inr [OF mi] j have mij: "np_geti (rows ! i) (r' ! j) = Inr (m ! i ! j)"
    by auto
  have "m ! i ! j = clashmat h ! np_idx (length (clashmat h)) (r ! i) !
               np_idx (length (clashmat h ! np_idx (length (clashmat h)) (r ! i))) (r' ! j)"
    using np_geti_Inr [OF ri] np_geti_Inr [OF mij] by simp
  moreover have "(i, j) \<in> set nz \<longleftrightarrow> \<bar>(x' ! j - x ! i) + (v' ! j - v ! i) * (m ! i ! j)\<bar> < tol h
            \<and> m ! i ! j \<ge> 0 \<and> m ! i ! j \<le> 1"
    unfolding nz using i j by auto
  ultimately show ?thesis by auto
qed

lemma Targets1_init_width:
  "Targets1_init gfps rate width v u = Inr t \<Longrightarrow> width1 t = width"
  by (auto simp add: Targets1_init_def Wave1_init_def Targets1_newpage_def set_page_def
      rbind_Inr_iff targets1.fields_def)

lemma Game1_init_tol: "Game1_init c u = Inr g \<Longrightarrow> tol (hits g) = targets_width c / 2"
  by (auto simp add: Game1_init_def Hits_init_def rbind_Inr_iff dest!: Targets1_init_width)


subsection \<open>Hits and misses of the first variant\<close>

lemma put_all_length [simp]: "length (put_all idx v xs) = length xs"
  unfolding put_all_def by (induction idx arbitrary: xs) simp_all

lemma put_all_nth:
  "k < length xs \<Longrightarrow> put_all idx v xs ! k = (if k \<in> set idx then v else xs ! k)"
  unfolding put_all_def
proof (induction idx arbitrary: xs)
  case Nil
  then show ?case by simp
next
  case (Cons i idx)
  then show ?case by (auto simp add: nth_list_update)
qed

lemma put_all_Nil [simp]: "put_all [] v xs = xs"
  by (simp add: put_all_def)

text \<open>What \<open>Hits.update\<close> of the first variant changes: the targets at the window offsets
  \<open>s\<close>, all visible before, become invisible and are logged and counted.\<close>

lemma Hits1_update_effect:
  assumes "Hits1_update g = Inr g'"
  shows "\<exists>s vb. set s \<subseteq> set (nonzero (snd (snd (current1 (targets g)))))
     \<and> targets g' = (targets g)\<lparr>visible1 :=
          put_all (map (\<lambda>i. n1 (targets g) + i) s) False (visible1 (targets g))\<rparr>
     \<and> bullets g' = (bullets g)\<lparr>visible1 := vb\<rparr>
     \<and> length vb = length (visible1 (bullets g))
     \<and> hitlog (hits g') = map (\<lambda>i. ident1 (targets g) ! (n1 (targets g) + i)) s @ hitlog (hits g)
     \<and> score_h (hits g') = score_h (hits g) + length s
     \<and> tol (hits g') = tol (hits g) \<and> timeout (hits g') = timeout (hits g)
     \<and> clashmat (hits g') = clashmat (hits g)
     \<and> length (weight (hits g')) = length (weight (hits g))
     \<and> avatar g' = avatar g \<and> fps g' = fps g \<and> gameover g' = gameover g
     \<and> nstep g' = nstep g \<and> perf g' = perf g \<and> status g' = status g"
proof -
  obtain x v vis where c: "current1 (targets g) = (x, v, vis)" by (cases "current1 (targets g)") auto
  obtain x' v' vis' where c': "current1 (bullets g) = (x', v', vis')"
    by (cases "current1 (bullets g)") auto
  show ?thesis
  proof (cases "True \<in> set vis \<and> True \<in> set vis'")
    case False
    with assms c c' have "g' = g\<lparr>hits := Hits_age (hits g)\<rparr>"
      by (auto simp add: Hits1_update_def Let_def)
    then show ?thesis
      by (intro exI [of _ "[]"] exI [of _ "visible1 (bullets g)"]) (simp add: Hits_age_def)
  next
    case True
    with assms c c' obtain nz where nz: "Hits1_pairs (hits g) (x, v, vis) (x', v', vis') = Inr nz"
      by (auto simp add: Hits1_update_def Let_def rbind_Inr_iff)
    show ?thesis
    proof (cases "nz = []")
      case True
      with assms c c' nz \<open>True \<in> set vis \<and> True \<in> set vis'\<close>
      have "g' = g\<lparr>hits := Hits_age (hits g)\<rparr>"
        by (auto simp add: Hits1_update_def Let_def)
      then show ?thesis
        by (intro exI [of _ "[]"] exI [of _ "visible1 (bullets g)"]) (simp add: Hits_age_def)
    next
      case False
      let ?s = "map (\<lambda>(i, j). nonzero vis ! i) nz"
      have sub: "set ?s \<subseteq> set (nonzero vis)"
        using Hits1_pairs_set [OF nz] by auto
      from assms c c' nz False \<open>True \<in> set vis \<and> True \<in> set vis'\<close>
      have g': "g' = (g\<lparr>tr_hits := True,
                        hits := (hits g)\<lparr>score_h := score_h (hits g) + length nz,
                                  weight := put_all ?s (timeout (hits g)) (weight (hits g)),
                                  xpos_h := put_each ?s (map (\<lambda>i. x ! i) ?s) (xpos_h (hits g)),
                                  hitlog := map (\<lambda>i. ident1 (targets g) ! (n1 (targets g) + i)) ?s @ hitlog (hits g)\<rparr>,
                        targets := (targets g)\<lparr>visible1 := put_all (map (\<lambda>i. n1 (targets g) + i) ?s) False (visible1 (targets g))\<rparr>,
                        bullets := (bullets g)\<lparr>visible1 := put_all (map (\<lambda>i. n1 (bullets g) + i) (map (\<lambda>(i, j). nonzero vis' ! j) nz)) False (visible1 (bullets g))\<rparr>\<rparr>)
                 \<lparr>hits := Hits_age ((hits g)\<lparr>score_h := score_h (hits g) + length nz,
                                  weight := put_all ?s (timeout (hits g)) (weight (hits g)),
                                  xpos_h := put_each ?s (map (\<lambda>i. x ! i) ?s) (xpos_h (hits g)),
                                  hitlog := map (\<lambda>i. ident1 (targets g) ! (n1 (targets g) + i)) ?s @ hitlog (hits g)\<rparr>)\<rparr>"
        by (simp add: Hits1_update_def Let_def)
      show ?thesis
        apply (rule exI [of _ ?s])
        apply (rule exI [of _ "put_all (map (\<lambda>i. n1 (bullets g) + i) (map (\<lambda>(i, j). nonzero vis' ! j) nz)) False (visible1 (bullets g))"])
        using sub c by (simp add: g' Hits_age_def)
    qed
  qed
qed

lemma Wave1_shift_frame:
  assumes "Wave1_shift np w = Inr w'"
  obtains n' xp xs vs ids fr where
    "w' = w\<lparr>n1 := n', xpos1 := xp, xspeed1 := xs, visible1 := vs, ident1 := ids, fresh1 := fr\<rparr>"
proof (cases "n1 w + 1 = N1 w")
  case False
  with assms have "w' = w\<lparr>n1 := n1 w + 1,
      xpos1 := add_range (n1 w) (n1 w + N1 w) (xspeed1 w) (xpos1 w), xspeed1 := xspeed1 w,
      visible1 := visible1 w, ident1 := ident1 w, fresh1 := fresh1 w\<rparr>"
    by (auto simp add: Wave1_shift_def Let_def)
  then show ?thesis by (rule that)
next
  case True
  with assms obtain pg wd where "w' = (set_page pg wd)\<lparr>n1 := 0\<rparr>"
    and "wd = w\<lparr>xpos1 := copy_back (N1 w) (add_range (n1 w) (n1 w + N1 w) (xspeed1 w) (xpos1 w)),
                       xspeed1 := copy_back (N1 w) (xspeed1 w),
                       visible1 := copy_back (N1 w) (visible1 w),
                       ident1 := copy_back (N1 w) (ident1 w)\<rparr>"
    by (auto simp add: Wave1_shift_def Let_def rbind_Inr_iff)
  then have "w' = w\<lparr>n1 := 0, xpos1 := xpos1 w', xspeed1 := xspeed1 w', visible1 := visible1 w',
      ident1 := ident1 w', fresh1 := fresh1 w'\<rparr>"
    by (cases pg) (simp add: set_page_def)
  then show ?thesis by (rule that)
qed

lemma shift_flags:
  assumes f: "\<forall>k < length (a # T). (a # T) ! k \<in> H \<longrightarrow> \<not> (v # VT) ! k"
    and l: "length VT = length T" and F: "set F \<inter> H = {}"
  shows "\<forall>k < length (T @ F). (T @ F) ! k \<in> H \<longrightarrow> \<not> (VT @ vs) ! k"
proof (intro allI impI)
  fix k assume k: "k < length (T @ F)" and h: "(T @ F) ! k \<in> H"
  show "\<not> (VT @ vs) ! k"
  proof (cases "k < length T")
    case True
    with f h have "\<not> (v # VT) ! Suc k" by (auto simp add: nth_append)
    with True l show ?thesis by (simp add: nth_append)
  next
    case False
    with k have "(T @ F) ! k \<in> set F" by (simp add: nth_append)
    with F h show ?thesis by blast
  qed
qed

lemma inv1_Targets1_update:
  assumes inv: "inv1 w h" and up: "Targets1_update u w = Inr (w', miss)"
  shows "inv1 w' h \<and> score1 w \<le> score1 w'"
proof -
  let ?n = "n1 w"
  let ?a = "ident1 w ! ?n"
  let ?T = "drop (Suc ?n) (ident1 w)"
  let ?VT = "drop (Suc ?n) (visible1 w)"
  define F where "F = (if ?n + 1 = N1 w then [fresh1 w..<fresh1 w + N1 w] else [])"
  let ?wb = "if visible1 w ! ?n
          then w\<lparr>score1 := score1 w + 1, missed1 := ?a # missed1 w\<rparr> else w"
  from inv have wf: "wf1 w" by (simp add: inv1_def)
  from up have sh: "Wave1_shift (Targets1_newpage u) ?wb = Inr w'"
    by (auto simp add: Targets1_update_def Wave1_update_def Targets1_hooks [OF wf]
        rbind_Inr_iff split: if_splits)
  have wfb: "wf1 ?wb" using wf by (simp add: wf1_def)
  have fields: "n1 ?wb = ?n" "N1 ?wb = N1 w" "ident1 ?wb = ident1 w" "visible1 ?wb = visible1 w"
    "fresh1 ?wb = fresh1 w"
    by simp_all
  from Wave1_shift_effect [OF wfb page_ok_Targets1 sh] obtain vs where
    e: "wf1 w'"
    "drop (n1 w') (visible1 w') = ?VT @ vs"
    "drop (n1 w') (ident1 w') = ?T @ F"
    "fresh1 w' = (if ?n + 1 = N1 w then fresh1 w + N1 w else fresh1 w)"
    unfolding fields F_def by blast
  from sh obtain n' xp xs vs' ids fr where
    "w' = ?wb\<lparr>n1 := n', xpos1 := xp, xspeed1 := xs, visible1 := vs', ident1 := ids, fresh1 := fr\<rparr>"
    by (rule Wave1_shift_frame)
  then have m: "missed1 w' = missed1 ?wb" "score1 w' = score1 ?wb"
    by simp_all
  from wf have P: "drop ?n (ident1 w) = ?a # ?T" and V: "drop ?n (visible1 w) = visible1 w ! ?n # ?VT"
    and lT: "length ?VT = length ?T"
    by (simp_all add: wf1_def Cons_nth_drop_Suc)
  from inv have d: "distinct (?a # ?T)"
    and b: "\<forall>i \<in> set (?a # ?T) \<union> set (missed1 w) \<union> set (hitlog h). i < fresh1 w"
    and ms: "set (missed1 w) \<inter> set (?a # ?T) = {}"
    and f: "\<forall>k < length (?a # ?T). (?a # ?T) ! k \<in> set (hitlog h) \<longrightarrow> \<not> (visible1 w ! ?n # ?VT) ! k"
    and g: "set (hitlog h) \<inter> set (missed1 w) = {}"
    and sc: "score1 w = length (missed1 w)" "score_h h = length (hitlog h)"
    unfolding inv1_def P V by blast+
  have Ffresh: "\<And>i. i \<in> set F \<Longrightarrow> fresh1 w \<le> i \<and> i < fresh1 w'" and dF: "distinct F"
    by (simp_all add: e(4) F_def)
  have mono: "fresh1 w \<le> fresh1 w'" by (simp add: e(4))
  from b have bT: "\<And>i. i \<in> set ?T \<Longrightarrow> i < fresh1 w" and ba: "?a < fresh1 w"
    and bM: "\<And>i. i \<in> set (missed1 w) \<Longrightarrow> i < fresh1 w"
    and bH: "\<And>i. i \<in> set (hitlog h) \<Longrightarrow> i < fresh1 w"
    by auto
  have TF: "set ?T \<inter> set F = {}" "?a \<notin> set F" and mF: "set (missed1 w) \<inter> set F = {}"
    and hF: "set F \<inter> set (hitlog h) = {}"
    using bT ba bM bH Ffresh by (force+)
  have 1: "distinct (?T @ F)"
    using d dF TF by simp
  have 2: "\<forall>i \<in> set (?T @ F) \<union> set (missed1 w') \<union> set (hitlog h). i < fresh1 w'"
    unfolding m using bT ba bM bH Ffresh mono by (force split: if_splits)
  have 3: "set (missed1 w') \<inter> set (?T @ F) = {}"
    using ms d TF mF unfolding m by (auto split: if_splits)
  from shift_flags [OF f lT hF]
  have 4: "\<forall>k < length (?T @ F). (?T @ F) ! k \<in> set (hitlog h) \<longrightarrow> \<not> (?VT @ vs) ! k" .
  have a_hit: "visible1 w ! ?n \<Longrightarrow> ?a \<notin> set (hitlog h)"
    using f by auto
  have 5: "set (hitlog h) \<inter> set (missed1 w') = {}"
    using g a_hit unfolding m by (auto split: if_splits)
  have 6: "score1 w' = length (missed1 w')" "score1 w \<le> score1 w'"
    using sc unfolding m by simp_all
  show ?thesis
    unfolding inv1_def e(2,3) using e(1) 1 2 3 4 5 6 sc(2) by blast
qed

lemma inv1_Hits1_update:
  assumes inv: "inv1 (targets g) (hits g)" and up: "Hits1_update g = Inr g'"
  shows "inv1 (targets g') (hits g') \<and> score_h (hits g) \<le> score_h (hits g')
         \<and> score1 (targets g') = score1 (targets g)"
proof -
  let ?w = "targets g" and ?h = "hits g"
  let ?n = "n1 ?w"
  let ?P = "drop ?n (ident1 ?w)" and ?V = "drop ?n (visible1 ?w)"
  from Hits1_update_effect [OF up] obtain s where
    s: "set s \<subseteq> set (nonzero (snd (snd (current1 ?w))))"
    and w': "targets g' = ?w\<lparr>visible1 := put_all (map (\<lambda>i. ?n + i) s) False (visible1 ?w)\<rparr>"
    and hl: "hitlog (hits g') = map (\<lambda>i. ident1 ?w ! (?n + i)) s @ hitlog ?h"
    and sc': "score_h (hits g') = score_h ?h + length s"
    by blast
  from inv have wf: "wf1 ?w" by (simp add: inv1_def)
  then have l: "length (ident1 ?w) = 2 * N1 ?w" "length (visible1 ?w) = 2 * N1 ?w" "?n < N1 ?w"
    by (simp_all add: wf1_def)
  have sN: "i < N1 ?w \<and> visible1 ?w ! (?n + i)" if "i \<in> set s" for i
    using that s l by (auto simp add: set_nonzero current1_def slice_def)
  have sP: "i < length ?P \<and> ident1 ?w ! (?n + i) = ?P ! i" if "i \<in> set s" for i
  proof -
    from sN [OF that] l have "i < 2 * N1 ?w - ?n" by arith
    with l show ?thesis by simp
  qed
  from inv have d: "distinct ?P"
    and b: "\<forall>i \<in> set ?P \<union> set (missed1 ?w) \<union> set (hitlog ?h). i < fresh1 ?w"
    and ms: "set (missed1 ?w) \<inter> set ?P = {}"
    and f: "\<forall>k < length ?P. ?P ! k \<in> set (hitlog ?h) \<longrightarrow> \<not> ?V ! k"
    and g: "set (hitlog ?h) \<inter> set (missed1 ?w) = {}"
    and sc: "score1 ?w = length (missed1 ?w)" "score_h ?h = length (hitlog ?h)"
    unfolding inv1_def by blast+
  have new: "set (map (\<lambda>i. ident1 ?w ! (?n + i)) s) \<subseteq> set ?P"
  proof
    fix x assume "x \<in> set (map (\<lambda>i. ident1 ?w ! (?n + i)) s)"
    then obtain i where "i \<in> set s" "x = ident1 ?w ! (?n + i)" by auto
    with sP [of i] show "x \<in> set ?P" by (metis nth_mem)
  qed
  have V': "drop ?n (put_all (map (\<lambda>i. ?n + i) s) False (visible1 ?w)) ! k
             = (if k \<in> set s then False else ?V ! k)" if "k < length ?P" for k
  proof -
    from that l have k': "?n + k < length (visible1 ?w)" by simp
    have "(?n + k \<in> set (map (\<lambda>i. ?n + i) s)) = (k \<in> set s)" by auto
    with k' l show ?thesis by (simp add: put_all_nth)
  qed
  have 0: "wf1 (targets g')" using wf unfolding w' by (simp add: wf1_def)
  have 2: "\<forall>i \<in> set ?P \<union> set (missed1 ?w) \<union> set (hitlog (hits g')). i < fresh1 ?w"
    using b new unfolding hl by auto
  have 4: "\<forall>k < length ?P. ?P ! k \<in> set (hitlog (hits g')) \<longrightarrow>
             \<not> drop ?n (put_all (map (\<lambda>i. ?n + i) s) False (visible1 ?w)) ! k"
  proof (intro allI impI)
    fix k assume k: "k < length ?P" and h: "?P ! k \<in> set (hitlog (hits g'))"
    from h have "?P ! k \<in> set (hitlog ?h) \<or> (\<exists>i \<in> set s. ?P ! k = ?P ! i)"
    proof -
      from h have "?P ! k \<in> set (hitlog ?h) \<or> (\<exists>i \<in> set s. ?P ! k = ident1 ?w ! (?n + i))"
        unfolding hl by auto
      then show ?thesis using sP by metis
    qed
    then show "\<not> drop ?n (put_all (map (\<lambda>i. ?n + i) s) False (visible1 ?w)) ! k"
    proof
      assume "?P ! k \<in> set (hitlog ?h)"
      with f k show ?thesis unfolding V' [OF k] by simp
    next
      assume "\<exists>i \<in> set s. ?P ! k = ?P ! i"
      then obtain i where i: "i \<in> set s" "?P ! k = ?P ! i" by blast
      have "k = i"
        using nth_eq_iff_index_eq [OF d k, of i] sP [OF i(1)] i(2) by blast
      with i show ?thesis unfolding V' [OF k] by simp
    qed
  qed
  have 5: "set (hitlog (hits g')) \<inter> set (missed1 ?w) = {}"
    using g new ms unfolding hl by auto
  have 6: "score_h (hits g') = length (hitlog (hits g'))"
    unfolding hl sc' using sc by simp
  have "inv1 (targets g') (hits g')"
    unfolding inv1_def using 0 d 2 ms 4 5 6 sc(1) unfolding w' by simp
  then show ?thesis unfolding sc' w' by simp
qed

lemma Game_update_cases:
  assumes "Game_update comps tscore dt g = Inr g'"
  obtains (quit) "tr_quit g"
      "g' = g\<lparr>gameover := True, status := [Txt ''Game over. Efficiency (logic): '',
                         Fmt ''.2%'' (perf g * real_of_int (fps g))]\<rparr>"
    | (run) g1 where "\<not> tr_quit g" "run_all comps g = Inr g1"
      "g' = g1\<lparr>nstep := nstep g1 + 1, status := status g',
                 perf := perf g1 + (dt - perf g1) / real (nstep g1 + 1)\<rparr>"
proof (cases "tr_quit g")
  case True
  with assms have "g' = g\<lparr>gameover := True, status := [Txt ''Game over. Efficiency (logic): '',
                         Fmt ''.2%'' (perf g * real_of_int (fps g))]\<rparr>"
    by (simp add: Game_update_def)
  with True show ?thesis by (rule quit)
next
  case False
  with assms obtain g1 where "run_all comps g = Inr g1"
     and "g' = g1\<lparr>nstep := nstep g1 + 1, status := status g',
                 perf := perf g1 + (dt - perf g1) / real (nstep g1 + 1)\<rparr>"
    by (auto simp add: Game_update_def rbind_Inr_iff Let_def)
  with False show ?thesis by (rule run)
qed

lemma run_components1:
  assumes "run_all (components1 f) g = Inr g'"
  obtains ga gb where "Targets1_step (unif f) (Avatar_update g) = Inr ga"
    "Bullets1_step ga = Inr gb" "Hits1_update gb = Inr g'"
  using assms by (auto simp add: components1_def rbind_Inr_iff)

lemma Targets1_step_cases:
  assumes "Targets1_step u g = Inr g'"
  obtains w' miss where "Targets1_update u (targets g) = Inr (w', miss)"
    "g' = g\<lparr>targets := w', tr_miss := (miss \<or> tr_miss g)\<rparr>"
  using assms by (auto simp add: Targets1_step_def rbind_Inr_iff)

lemma Bullets1_step_cases:
  assumes "Bullets1_step g = Inr g'"
  obtains w' miss where "Bullets1_update (fst (pos (avatar g))) (bullets g) = Inr (w', miss)"
    "g' = g\<lparr>bullets := w', tr_miss := (miss \<or> tr_miss g)\<rparr>"
  using assms by (auto simp add: Bullets1_step_def rbind_Inr_iff)

text \<open>One frame keeps the invariant and does not lower either score.\<close>

lemma inv1_frame1:
  assumes inv: "inv1 (targets g) (hits g)" and fr: "frame1 f g = Inr g'"
  shows "inv1 (targets g') (hits g') \<and> score1 (targets g) \<le> score1 (targets g')
         \<and> score_h (hits g) \<le> score_h (hits g')"
  using fr unfolding frame1_def
proof (cases rule: Game_update_cases)
  case quit
  with inv show ?thesis by (simp add: userinput_def Let_def)
next
  case (run g1)
  let ?g0 = "Avatar_update (userinput (keys f) g)"
  have g0: "targets ?g0 = targets g" "hits ?g0 = hits g"
    by (simp_all add: Avatar_update_def userinput_def Let_def)
  from run(2) obtain ga gb where a: "Targets1_step (unif f) ?g0 = Inr ga"
    and b: "Bullets1_step ga = Inr gb" and c: "Hits1_update gb = Inr g1"
    by (rule run_components1)
  from a obtain w' miss where w': "Targets1_update (unif f) (targets g) = Inr (w', miss)"
    and ga: "targets ga = w'" "hits ga = hits g"
    by (rule Targets1_step_cases) (simp add: g0)
  from b have gb: "targets gb = w'" "hits gb = hits g"
    by (rule Bullets1_step_cases; simp add: ga)+
  from inv1_Targets1_update [OF inv w'] have i1: "inv1 (targets gb) (hits gb)"
    and s1: "score1 (targets g) \<le> score1 (targets gb)"
    by (simp_all add: gb)
  from inv1_Hits1_update [OF i1 c] have "inv1 (targets g1) (hits g1)"
    and "score_h (hits gb) \<le> score_h (hits g1)" and "score1 (targets g1) = score1 (targets gb)"
    by simp_all
  moreover have "targets g' = targets g1" "hits g' = hits g1"
    by (subst run(3), simp)+
  ultimately show ?thesis using s1 gb by simp
qed

lemma zeros_Inr: "zeros k z = Inr zs \<Longrightarrow> 0 \<le> k \<and> zs = replicate (nat k) z"
  by (auto simp add: zeros_def split: if_splits)

lemma Wave1_init_Inr:
  assumes "Wave1_init gfps v orient ext = Inr w"
  obtains N zs fs where "length zs = 2 * N" "length fs = 2 * N"
    "w = \<lparr>N1 = N, n1 = 0, orient1 = orient, xpos1 = zs, xspeed1 = zs, visible1 = fs,
          ypos1 = oriented orient (linspace01 N), ident1 = [0..<2 * N], fresh1 = 2 * N,
          \<dots> = ext\<rparr>"
proof -
  from assms obtain q zs fs where q: "zeros (2 * py_int q) (0::real) = Inr zs"
    "zeros (2 * py_int q) False = Inr fs"
    and w: "w = \<lparr>N1 = nat (py_int q), n1 = 0, orient1 = orient,
            xpos1 = zs, xspeed1 = zs, visible1 = fs,
            ypos1 = oriented orient (linspace01 (nat (py_int q))),
            ident1 = [0..<length zs], fresh1 = length zs, \<dots> = ext\<rparr>"
    by (auto simp add: Wave1_init_def rbind_Inr_iff)
  from zeros_Inr [OF q(1)] zeros_Inr [OF q(2)]
  have l: "length zs = 2 * nat (py_int q)" "length fs = 2 * nat (py_int q)"
    by (simp_all add: nat_mult_distrib)
  show ?thesis
    by (rule that [OF l]) (simp add: w l)
qed

lemma Targets1_init_inv:
  assumes t: "Targets1_init gfps rate width v u = Inr t" and N: "0 < N1 t"
    and h: "hitlog h = []" "score_h h = 0"
  shows "inv1 t h"
proof -
  from t obtain r w pg where w: "Wave1_init gfps v 1 (targets1.fields r width 0 []) = Inr w"
    and pg: "Targets1_newpage u w = Inr pg" and t': "t = set_page pg w"
    by (auto simp add: Targets1_init_def rbind_Inr_iff)
  obtain xp xs vs where p: "pg = (xp, xs, vs)" by (cases pg) auto
  from pg p page_ok_Targets1 [of u] have len: "length xp = N1 w" "length xs = N1 w" "length vs = N1 w"
    by (auto simp add: page_ok_def)
  from w obtain K zs fs where l: "length zs = 2 * K" "length fs = 2 * K"
    and w': "w = \<lparr>N1 = K, n1 = 0, orient1 = 1, xpos1 = zs, xspeed1 = zs, visible1 = fs,
          ypos1 = oriented 1 (linspace01 K), ident1 = [0..<2 * K], fresh1 = 2 * K,
          \<dots> = targets1.fields r width 0 []\<rparr>"
    by (rule Wave1_init_Inr)
  have K: "N1 w = K" by (simp add: w')
  have N': "N1 t = K" by (simp add: t' p set_page_def w')
  have id: "ident1 t = [0..<K] @ [2 * K..<3 * K]" and fr: "fresh1 t = 3 * K"
    and n: "n1 t = 0" and mt: "missed1 t = []" "score1 t = 0"
    and ls: "length (xpos1 t) = 2 * K" "length (xspeed1 t) = 2 * K"
      "length (visible1 t) = 2 * K"
    using len l unfolding K by (simp_all add: t' p set_page_def w' targets1.fields_def)
  show ?thesis
    unfolding inv1_def wf1_def N' id fr n mt h using N ls unfolding N' by auto
qed

lemma Hits_init_Inr:
  assumes "Hits_init gfps tmo width r N r' N' = Inr h"
  shows "0 < N \<and> 0 < N' \<and> hitlog h = [] \<and> score_h h = 0 \<and> tol h = width / 2
       \<and> timeout h = py_int (tmo * real_of_int gfps)
       \<and> clashmat h = map (\<lambda>y. map (\<lambda>y'. (y - y') / (1 / real N + 1 / real N')) r') r
       \<and> length (weight h) = N"
  using assms
  by (auto simp add: Hits_init_def py_truediv_def rbind_Inr_iff split: if_splits)

lemma Game1_init_inv:
  assumes "Game1_init c u = Inr g"
  shows "inv1 (targets g) (hits g)"
proof -
  from assms obtain a t b h where
    t: "Targets1_init (c_fps c) (targets_rate c) (targets_width c) (targets_v c) u = Inr t"
    and h: "Hits_init (c_fps c) (hits_timeout c) (width1 t) (ypos1 t) (N1 t) (ypos1 b) (N1 b) = Inr h"
    and g': "g = \<lparr>fps = c_fps c, tr_move = 0, tr_quit = False, tr_hits = False, tr_miss = False,
            nstep = 0, gameover = False, status = [Txt ''time: 0''], perf = 0,
            avatar = a, targets = t, bullets = b, hits = h\<rparr>"
    unfolding Game1_init_def rbind_Inr_iff by blast
  have g: "targets g = t" "hits g = h" by (simp_all add: g')
  from Hits_init_Inr [OF h] Targets1_init_inv [OF t] show ?thesis
    unfolding g by simp
qed

lemma inv1_updates1:
  assumes "inv1 (targets g) (hits g)" and "updates1 fs g = Inr g'"
  shows "inv1 (targets g') (hits g') \<and> score1 (targets g) \<le> score1 (targets g')
         \<and> score_h (hits g) \<le> score_h (hits g')"
  using assms
proof (induction fs arbitrary: g)
  case Nil
  then show ?case by simp
next
  case (Cons f fs)
  from Cons.prems(2) obtain g1 where f: "frame1 f g = Inr g1" and r: "updates1 fs g1 = Inr g'"
    by (auto simp add: rbind_Inr_iff)
  from inv1_frame1 [OF Cons.prems(1) f] Cons.IH [OF _ r] show ?case
    by fastforce
qed

end
